theory Spec2Isabelle
  imports Main
begin

chapter \<open>The embedding\<close>

section \<open>Strings\<close>

text \<open>
  A JavaScript string is modelled as a \<^typ>\<open>string\<close> whose characters are the code
  units \<open>0..255\<close>, read as Latin-1 code points. On that range \<open>String.prototype.trim\<close>
  strips TAB, LF, VT, FF, CR, SPACE and NBSP from both ends, and
  \<open>String.prototype.toLowerCase\<close> maps \<open>A..Z\<close> and the upper-case letters
  \<open>U+00C0..U+00DE\<close> (without the multiplication sign \<open>U+00D7\<close>) to the code point
  32 above.
\<close>

definition isWhiteSpace :: "char \<Rightarrow> bool" where
  "isWhiteSpace c =
     (c \<in> set [CHR 0x09, CHR 0x0A, CHR 0x0B, CHR 0x0C, CHR 0x0D, CHR 0x20, CHR 0xA0])"

definition trim :: "string \<Rightarrow> string" where
  "trim s = rev (dropWhile isWhiteSpace (rev (dropWhile isWhiteSpace s)))"

definition upperCaseChars :: "string" where
  "upperCaseChars = ''ABCDEFGHIJKLMNOPQRSTUVWXYZ'' @
     [CHR 0xC0, CHR 0xC1, CHR 0xC2, CHR 0xC3, CHR 0xC4, CHR 0xC5, CHR 0xC6, CHR 0xC7,
      CHR 0xC8, CHR 0xC9, CHR 0xCA, CHR 0xCB, CHR 0xCC, CHR 0xCD, CHR 0xCE, CHR 0xCF,
      CHR 0xD0, CHR 0xD1, CHR 0xD2, CHR 0xD3, CHR 0xD4, CHR 0xD5, CHR 0xD6,
      CHR 0xD8, CHR 0xD9, CHR 0xDA, CHR 0xDB, CHR 0xDC, CHR 0xDD, CHR 0xDE]"

definition lowerCaseChars :: "string" where
  "lowerCaseChars = ''abcdefghijklmnopqrstuvwxyz'' @
     [CHR 0xE0, CHR 0xE1, CHR 0xE2, CHR 0xE3, CHR 0xE4, CHR 0xE5, CHR 0xE6, CHR 0xE7,
      CHR 0xE8, CHR 0xE9, CHR 0xEA, CHR 0xEB, CHR 0xEC, CHR 0xED, CHR 0xEE, CHR 0xEF,
      CHR 0xF0, CHR 0xF1, CHR 0xF2, CHR 0xF3, CHR 0xF4, CHR 0xF5, CHR 0xF6,
      CHR 0xF8, CHR 0xF9, CHR 0xFA, CHR 0xFB, CHR 0xFC, CHR 0xFD, CHR 0xFE]"

definition toLowerChar :: "char \<Rightarrow> char" where
  "toLowerChar c =
     (case map_of (zip upperCaseChars lowerCaseChars) c of Some l \<Rightarrow> l | None \<Rightarrow> c)"

definition toLowerCase :: "string \<Rightarrow> string" where
  "toLowerCase s = map toLowerChar s"

definition startsWith :: "string \<Rightarrow> string \<Rightarrow> bool" where
  "startsWith s p = (take (length p) s = p)"

definition endsWith :: "string \<Rightarrow> string \<Rightarrow> bool" where
  "endsWith s p = (length p \<le> length s \<and> drop (length s - length p) s = p)"

section \<open>Tool policies\<close>

text \<open>
  \<open>SandboxToolPolicy\<close> is \<open>{ allow?: string[]; deny?: string[] }\<close>; a missing field is
  \<open>None\<close>.
\<close>

record SandboxToolPolicy =
  allow :: "string list option"
  deny :: "string list option"

definition TOOL_NAME_ALIASES :: "(string \<times> string) list" where
  "TOOL_NAME_ALIASES = [(''bash'', ''exec''), (''apply-patch'', ''apply_patch'')]"

text \<open>
  The alias table is a plain object, so the two lower-case names that every object inherits
  (\<open>constructor\<close> and \<open>__proto__\<close>) look up a non-string value. Such a value is equal
  only to itself, is truthy and is never \<open>"apply_patch"\<close> or \<open>"exec"\<close>, so it takes
  part in the set tests below exactly as the name it came from does; the model keeps the name.
\<close>

definition normalizeToolName :: "string \<Rightarrow> string" where
  "normalizeToolName nm =
     (let normalized = toLowerCase (trim nm)
      in case map_of TOOL_NAME_ALIASES normalized of Some a \<Rightarrow> a | None \<Rightarrow> normalized)"

definition normalizeToolNames :: "string list option \<Rightarrow> string list" where
  "normalizeToolNames list =
     (case list of
        None \<Rightarrow> []
      | Some xs \<Rightarrow> filter (\<lambda>s. s \<noteq> []) (map normalizeToolName xs))"

definition isToolAllowedByPolicyName :: "string \<Rightarrow> SandboxToolPolicy option \<Rightarrow> bool" where
  "isToolAllowedByPolicyName nm policy =
     (case policy of
        None \<Rightarrow> True
      | Some p \<Rightarrow>
          (let denySet = set (normalizeToolNames (deny p));
               allowRaw = normalizeToolNames (allow p);
               allowSet = (if length allowRaw > 0 then Some (set allowRaw) else None);
               normalized = normalizeToolName nm
           in if normalized \<in> denySet then False
              else (case allowSet of
                      Some a \<Rightarrow>
                        if normalized \<in> a then True
                        else if normalized = ''apply_patch'' \<and> ''exec'' \<in> a then True
                        else False
                    | None \<Rightarrow> True)))"

section \<open>JSON values\<close>

text \<open>
  A tool's parameter schema and a tool call's arguments are plain JavaScript values. An
  object is the list of its own enumerable properties in the order in which JavaScript
  enumerates them: the keys that are array indices first, in ascending order, then the
  other keys in the order of their insertion. \<open>JUndefined\<close> is \<open>undefined\<close>. Numbers are
  only compared and classified by the code modelled here, never computed with, so an integer
  stands for a number. \<open>JInherited k\<close> is the member that every plain object inherits from
  \<open>Object.prototype\<close> under the name \<open>k\<close>: a function, and for \<open>__proto__\<close> the
  prototype object itself. Values are trees: every array or object literal that occurs in a
  schema is an object of its own and shares nothing with another occurrence. The
  \<open>length\<close> of an array is not part of the model; no key the code looks up names it.
\<close>

datatype json =
    JUndefined
  | JNull
  | JBool bool
  | JNum int
  | JStr string
  | JArr "json list"
  | JObj "(string \<times> json) list"
  | JInherited string

definition objectPrototypeNames :: "string list" where
  "objectPrototypeNames =
     [''constructor'', ''__defineGetter__'', ''__defineSetter__'', ''hasOwnProperty'',
      ''__lookupGetter__'', ''__lookupSetter__'', ''isPrototypeOf'', ''propertyIsEnumerable'',
      ''toString'', ''valueOf'', ''__proto__'', ''toLocaleString'']"

fun truthy :: "json \<Rightarrow> bool" where
  "truthy JUndefined = False"
| "truthy JNull = False"
| "truthy (JBool b) = b"
| "truthy (JNum n) = (n \<noteq> 0)"
| "truthy (JStr s) = (s \<noteq> [])"
| "truthy (JArr xs) = True"
| "truthy (JObj fs) = True"
| "truthy (JInherited k) = True"

fun typeof :: "json \<Rightarrow> string" where
  "typeof JUndefined = ''undefined''"
| "typeof JNull = ''object''"
| "typeof (JBool b) = ''boolean''"
| "typeof (JNum n) = ''number''"
| "typeof (JStr s) = ''string''"
| "typeof (JArr xs) = ''object''"
| "typeof (JObj fs) = ''object''"
| "typeof (JInherited k) = (if k = ''__proto__'' then ''object'' else ''function'')"

text \<open>\<open>v && typeof v === "object"\<close>: an object or an array, not \<open>null\<close>.\<close>

definition isObject :: "json \<Rightarrow> bool" where
  "isObject v = (truthy v \<and> typeof v = ''object'')"

fun isString :: "json \<Rightarrow> bool" where
  "isString (JStr s) = True"
| "isString v = False"

text \<open>\<open>Array.isArray\<close>, returning the elements.\<close>

fun asArray :: "json \<Rightarrow> json list option" where
  "asArray (JArr xs) = Some xs"
| "asArray v = None"

definition digitChar :: "nat \<Rightarrow> char" where
  "digitChar d = ''0123456789'' ! d"

function natToString :: "nat \<Rightarrow> string" where
  "natToString n =
     (if n < 10 then [digitChar n] else natToString (n div 10) @ [digitChar (n mod 10)])"
  by pat_completeness auto
termination
  by (relation "measure id") auto

text \<open>\<open>Object.entries\<close>: the own properties; an array has its indices as keys.\<close>

fun ownEntries :: "json \<Rightarrow> (string \<times> json) list" where
  "ownEntries (JObj fs) = fs"
| "ownEntries (JArr xs) = zip (map natToString [0..<length xs]) xs"
| "ownEntries v = []"

text \<open>\<open>v[k]\<close> (or \<open>v.k\<close>) and \<open>k in v\<close>.\<close>

definition getProp :: "json \<Rightarrow> string \<Rightarrow> json" where
  "getProp v k = (case map_of (ownEntries v) k of Some x \<Rightarrow> x | None \<Rightarrow> JUndefined)"

definition hasProp :: "json \<Rightarrow> string \<Rightarrow> bool" where
  "hasProp v k = (map_of (ownEntries v) k \<noteq> None)"

text \<open>
  \<open>m.set(k, v)\<close> on a \<open>Map\<close>, and \<open>m[k] = v\<close> on an object for a key that is not an
  array index: a key already there keeps its place, a new key goes last.
  \<open>delete m[k]\<close> removes the key.
\<close>

fun setProp :: "('k \<times> 'v) list \<Rightarrow> 'k \<Rightarrow> 'v \<Rightarrow> ('k \<times> 'v) list" where
  "setProp [] k v = [(k, v)]"
| "setProp ((k', v') # fs) k v =
     (if k' = k then (k, v) # fs else (k', v') # setProp fs k v)"

definition deleteProp :: "('k \<times> 'v) list \<Rightarrow> 'k \<Rightarrow> ('k \<times> 'v) list" where
  "deleteProp fs k = filter (\<lambda>kv. fst kv \<noteq> k) fs"

text \<open>
  \<open>m[k] = v\<close> on an object for any key. An array index is a canonical decimal numeral
  below \<open>2\<^sup>3\<^sup>2 - 1\<close>; a new key that is one is enumerated among the array indices, in
  ascending order, before every other key.
\<close>

definition digitValue :: "char \<Rightarrow> nat" where
  "digitValue c = length (takeWhile (\<lambda>d. d \<noteq> c) ''0123456789'')"

definition digitsToNat :: "string \<Rightarrow> nat" where
  "digitsToNat k = foldl (\<lambda>n c. 10 * n + digitValue c) 0 k"

definition arrayIndex :: "string \<Rightarrow> nat option" where
  "arrayIndex k =
     (if k \<noteq> [] \<and> list_all (\<lambda>c. c \<in> set ''0123456789'') k \<and>
         (length k = 1 \<or> hd k \<noteq> CHR ''0'') \<and> digitsToNat k < 4294967295
      then Some (digitsToNat k) else None)"

fun insertIndexed ::
  "nat \<Rightarrow> string \<Rightarrow> 'v \<Rightarrow> (string \<times> 'v) list \<Rightarrow> (string \<times> 'v) list" where
  "insertIndexed n k v [] = [(k, v)]"
| "insertIndexed n k v ((k', v') # fs) =
     (case arrayIndex k' of
        Some m \<Rightarrow>
          if m < n then (k', v') # insertIndexed n k v fs else (k, v) # (k', v') # fs
      | None \<Rightarrow> (k, v) # (k', v') # fs)"

definition objSet :: "(string \<times> 'v) list \<Rightarrow> string \<Rightarrow> 'v \<Rightarrow> (string \<times> 'v) list" where
  "objSet fs k v =
     (case arrayIndex k of
        Some n \<Rightarrow> if map_of fs k = None then insertIndexed n k v fs else setProp fs k v
      | None \<Rightarrow> setProp fs k v)"

text \<open>
  \<open>Array.from(new Set(xs))\<close>: the elements are added one by one to the set \<open>acc\<close>, which
  keeps the order of insertion. \<open>newSet\<close> is the set of strings. A set of values compares
  them by \<open>sameValueZero\<close>: strings, numbers, booleans, \<open>null\<close> and \<open>undefined\<close> by
  value, objects by reference, so that an array or object literal, being an object of its
  own, is the same as no other element.
\<close>

fun newSet :: "'a list \<Rightarrow> 'a list \<Rightarrow> 'a list" where
  "newSet acc [] = acc"
| "newSet acc (x # xs) = (if x \<in> set acc then newSet acc xs else newSet (acc @ [x]) xs)"

text \<open>A value of the type Object: an array, an object or a function.\<close>

fun isObjectType :: "json \<Rightarrow> bool" where
  "isObjectType (JArr xs) = True"
| "isObjectType (JObj fs) = True"
| "isObjectType (JInherited k) = True"
| "isObjectType v = False"

fun isLiteralObject :: "json \<Rightarrow> bool" where
  "isLiteralObject (JArr xs) = True"
| "isLiteralObject (JObj fs) = True"
| "isLiteralObject v = False"

definition sameValueZero :: "json \<Rightarrow> json \<Rightarrow> bool" where
  "sameValueZero x y = (\<not> isLiteralObject x \<and> x = y)"

fun newValueSet :: "json list \<Rightarrow> json list \<Rightarrow> json list" where
  "newValueSet acc [] = acc"
| "newValueSet acc (x # xs) =
     (if \<exists>a \<in> set acc. sameValueZero a x then newValueSet acc xs
      else newValueSet (acc @ [x]) xs)"

section \<open>Schema normalization\<close>

text \<open>
  The alternatives of a union: \<open>anyOf\<close> when it is an array, else \<open>oneOf\<close> when it is
  an array.
\<close>

definition unionVariants :: "json \<Rightarrow> json list option" where
  "unionVariants record =
     (case asArray (getProp record ''anyOf'') of
        Some vs \<Rightarrow> Some vs
      | None \<Rightarrow> asArray (getProp record ''oneOf''))"

lemma size_field:
  "(k, v) \<in> set fs \<Longrightarrow> size v < Suc (size_list (size_prod (\<lambda>_. 0) size) fs)"
  by (induction fs) auto

lemma size_elem: "v \<in> set xs \<Longrightarrow> size (v::json) < Suc (size_list size xs)"
  by (induction xs) auto

lemma size_getProp:
  assumes "getProp v k \<noteq> JUndefined"
  shows "size (getProp v k) < size v"
proof (cases "map_of (ownEntries v) k")
  case None
  with assms show ?thesis by (simp add: getProp_def)
next
  case (Some x)
  then have mem: "(k, x) \<in> set (ownEntries v)" by (rule map_of_SomeD)
  have "size x < size v"
  proof (cases v)
    case (JArr xs)
    with mem have "x \<in> set xs" by (auto dest: set_zip_rightD)
    then show ?thesis using JArr by (auto dest: size_elem)
  next
    case (JObj fs)
    with mem show ?thesis by (auto dest: size_field)
  qed (use mem in auto)
  with Some show ?thesis by (simp add: getProp_def)
qed

lemma size_asArray: "asArray v = Some xs \<Longrightarrow> x \<in> set xs \<Longrightarrow> size x < size v"
  by (cases v) (auto dest: size_elem)

lemma size_unionVariants:
  assumes "unionVariants r = Some vs" and "x \<in> set vs"
  shows "size x < size r"
proof -
  from assms(1) obtain k where k: "asArray (getProp r k) = Some vs"
    by (auto simp: unionVariants_def split: option.splits)
  then have "getProp r k \<noteq> JUndefined" by auto
  then have "size (getProp r k) < size r" by (rule size_getProp)
  moreover from k assms(2) have "size x < size (getProp r k)" by (rule size_asArray)
  ultimately show ?thesis by simp
qed

function extractEnumValues :: "json \<Rightarrow> json list option" where
  "extractEnumValues schema =
     (if \<not> isObject schema then None
      else (case asArray (getProp schema ''enum'') of
        Some es \<Rightarrow> Some es
      | None \<Rightarrow>
          if hasProp schema ''const'' then Some [getProp schema ''const'']
          else (case unionVariants schema of
            Some variants \<Rightarrow>
              (let values = concat (map (\<lambda>variant.
                              (case extractEnumValues variant of Some e \<Rightarrow> e | None \<Rightarrow> []))
                            variants)
               in if length values > 0 then Some values else None)
          | None \<Rightarrow> None)))"
  by pat_completeness auto
termination
proof (relation "measure size")
  fix schema :: json and x2 x
  assume "unionVariants schema = Some x2" and "x \<in> set x2"
  then show "(x, schema) \<in> measure size"
    by (simp add: size_unionVariants)
qed simp

declare extractEnumValues.simps [simp del]

text \<open>
  The inner loop of \<open>mergePropertySchemas\<close> for one source: the keys \<open>title\<close>,
  \<open>description\<close> and \<open>default\<close> that \<open>merged\<close> does not have yet are copied from it.
\<close>

definition carryForward :: "(string \<times> json) list \<Rightarrow> json \<Rightarrow> (string \<times> json) list" where
  "carryForward merged source =
     (if \<not> isObject source then merged
      else foldl (\<lambda>m key. if map_of m key = None \<and> hasProp source key
                           then setProp m key (getProp source key) else m)
             merged [''title'', ''description'', ''default''])"

definition mergePropertySchemas :: "json \<Rightarrow> json \<Rightarrow> json" where
  "mergePropertySchemas existing incoming =
     (if \<not> truthy existing then incoming
      else if \<not> truthy incoming then existing
      else
        (let existingEnum = extractEnumValues existing;
             incomingEnum = extractEnumValues incoming
         in if existingEnum \<noteq> None \<or> incomingEnum \<noteq> None then
              (let values = newValueSet []
                              ((case existingEnum of Some e \<Rightarrow> e | None \<Rightarrow> []) @
                               (case incomingEnum of Some e \<Rightarrow> e | None \<Rightarrow> []));
                   merged0 = foldl carryForward [] [existing, incoming];
                   types = newSet [] (map typeof values);
                   merged1 = (if length types = 1 then setProp merged0 ''type'' (JStr (hd types))
                              else merged0);
                   merged2 = setProp merged1 ''enum'' (JArr values)
               in JObj merged2)
            else existing))"

text \<open>The state of the loop over the alternatives in \<open>normalizeToolParameters\<close>.\<close>

text \<open>
  \<open>mergedProperties\<close> starts as the plain object \<open>{}\<close>. The state keeps its own
  properties and its prototype: at first \<open>Object.prototype\<close>, which an assignment to
  \<open>__proto__\<close> replaces by the object assigned (the inherited setter does so for an
  object or \<open>null\<close> and ignores any other value). In this loop the object assigned is
  \<open>Object.prototype\<close> again or an object built by \<open>mergePropertySchemas\<close>, whose own
  prototype is \<open>Object.prototype\<close>.
\<close>

record FlattenState =
  mergedProperties :: "(string \<times> json) list"
  mergedPrototype :: json
  requiredCounts :: "(string \<times> nat) list"
  objectVariants :: nat

text \<open>
  \<open>key in mergedProperties\<close>, \<open>mergedProperties[key]\<close> and
  \<open>mergedProperties[key] = v\<close>, on the own properties and the prototype.
\<close>

definition inMerged :: "(string \<times> json) list \<Rightarrow> json \<Rightarrow> string \<Rightarrow> bool" where
  "inMerged own proto key =
     (map_of own key \<noteq> None \<or>
      (proto \<noteq> JNull \<and> (hasProp proto key \<or> key \<in> set objectPrototypeNames)))"

definition readMerged :: "(string \<times> json) list \<Rightarrow> json \<Rightarrow> string \<Rightarrow> json" where
  "readMerged own proto key =
     (case map_of own key of
        Some v \<Rightarrow> v
      | None \<Rightarrow>
          if proto = JNull then JUndefined
          else if key = ''__proto__'' then proto
          else if hasProp proto key then getProp proto key
          else if key \<in> set objectPrototypeNames then JInherited key
          else JUndefined)"

definition writeMerged ::
  "(string \<times> json) list \<Rightarrow> json \<Rightarrow> string \<Rightarrow> json \<Rightarrow> (string \<times> json) list \<times> json" where
  "writeMerged own proto key v =
     (if key = ''__proto__'' \<and> proto \<noteq> JNull
      then (own, if isObjectType v \<or> v = JNull then v else proto)
      else (objSet own key v, proto))"

text \<open>The body of the loop over \<open>Object.entries(props)\<close>.\<close>

definition mergeProperty ::
  "(string \<times> json) list \<times> json \<Rightarrow> string \<times> json \<Rightarrow> (string \<times> json) list \<times> json" where
  "mergeProperty mp entry =
     (case mp of (own, proto) \<Rightarrow>
        (case entry of (key, v) \<Rightarrow>
           if \<not> inMerged own proto key then writeMerged own proto key v
           else writeMerged own proto key (mergePropertySchemas (readMerged own proto key) v)))"

text \<open>The body of the loop over \<open>required\<close>.\<close>

definition countRequired :: "(string \<times> nat) list \<Rightarrow> json \<Rightarrow> (string \<times> nat) list" where
  "countRequired rc key =
     (case key of
        JStr k \<Rightarrow> setProp rc k ((case map_of rc k of Some c \<Rightarrow> c | None \<Rightarrow> 0) + 1)
      | _ \<Rightarrow> rc)"

text \<open>The body of the loop over the alternatives.\<close>

definition mergeVariant :: "FlattenState \<Rightarrow> json \<Rightarrow> FlattenState" where
  "mergeVariant st entry =
     (if \<not> isObject entry then st
      else
        (let props = getProp entry ''properties''
         in if \<not> isObject props then st
            else
              \<lparr>mergedProperties =
                 fst (foldl mergeProperty (mergedProperties st, mergedPrototype st)
                        (ownEntries props)),
               mergedPrototype =
                 snd (foldl mergeProperty (mergedProperties st, mergedPrototype st)
                        (ownEntries props)),
               requiredCounts =
                 foldl countRequired (requiredCounts st)
                   (case asArray (getProp entry ''required'') of Some r \<Rightarrow> r | None \<Rightarrow> []),
               objectVariants = objectVariants st + 1\<rparr>))"

text \<open>
  The object that \<open>normalizeToolParameters\<close> builds for a union schema and hands to
  \<open>cleanSchemaForGemini\<close>.
\<close>

definition flattenUnionSchema :: "json \<Rightarrow> json list \<Rightarrow> json" where
  "flattenUnionSchema schema variants =
     (let st = foldl mergeVariant
                 \<lparr>mergedProperties = [], mergedPrototype = JInherited ''__proto__'',
                   requiredCounts = [], objectVariants = 0\<rparr> variants;
          baseRequired = map_option (filter isString) (asArray (getProp schema ''required''));
          fromCounts =
            (if objectVariants st > 0
             then Some (map (\<lambda>(key, count). JStr key)
                          (filter (\<lambda>(key, count). count = objectVariants st) (requiredCounts st)))
             else None);
          mergedRequired =
            (case baseRequired of
               Some b \<Rightarrow> if length b > 0 then Some b else fromCounts
             | None \<Rightarrow> fromCounts)
      in JObj
           ([(''type'', JStr ''object'')] @
            (if isString (getProp schema ''title'')
             then [(''title'', getProp schema ''title'')] else []) @
            (if isString (getProp schema ''description'')
             then [(''description'', getProp schema ''description'')] else []) @
            [(''properties'',
               if length (mergedProperties st) > 0 then JObj (mergedProperties st)
               else if getProp schema ''properties'' = JUndefined \<or>
                       getProp schema ''properties'' = JNull
                    then JObj [] else getProp schema ''properties'')] @
            (case mergedRequired of
               Some r \<Rightarrow> if length r > 0 then [(''required'', JArr r)] else []
             | None \<Rightarrow> []) @
            [(''additionalProperties'',
               if hasProp schema ''additionalProperties''
               then getProp schema ''additionalProperties''
               else JBool True)]))"

text \<open>
  The wording of the specification for the merged enumeration, to compare with \<open>newSet\<close>:
  the values in first-seen order with duplicates removed.
\<close>

fun firstSeen :: "'a list \<Rightarrow> 'a list" where
  "firstSeen [] = []"
| "firstSeen (x # xs) = x # filter (\<lambda>y. y \<noteq> x) (firstSeen xs)"

fun firstSeenValues :: "json list \<Rightarrow> json list" where
  "firstSeenValues [] = []"
| "firstSeenValues (x # xs) = x # filter (\<lambda>y. \<not> sameValueZero x y) (firstSeenValues xs)"

text \<open>
  The wording of the specification for the required list, to compare with the counting
  loop: the alternatives that define object properties, and the names an alternative lists
  as required.
\<close>

fun stringsOf :: "json list \<Rightarrow> string list" where
  "stringsOf [] = []"
| "stringsOf (JStr k # xs) = k # stringsOf xs"
| "stringsOf (v # xs) = stringsOf xs"

definition definesObjectProperties :: "json \<Rightarrow> bool" where
  "definesObjectProperties e = (isObject e \<and> isObject (getProp e ''properties''))"

definition requiredNames :: "json \<Rightarrow> string list" where
  "requiredNames e =
     stringsOf (case asArray (getProp e ''required'') of Some r \<Rightarrow> r | None \<Rightarrow> [])"


section \<open>Tools, results and cancellation\<close>

text \<open>
  An \<open>AbortSignal\<close> is the signal of a cancellation source (a controller, numbered), the
  signal \<open>AbortSignal.any([a, b])\<close>, or the signal of the fresh controller that
  \<open>combineAbortSignals\<close> links to \<open>a\<close> and \<open>b\<close> by listeners where
  \<open>AbortSignal.any\<close> is missing. Given the set of sources that have fired,
  \<open>aborted\<close> is the signal's \<open>aborted\<close> flag.
\<close>

datatype AbortSignal =
    Source nat
  | AnyOf AbortSignal AbortSignal
  | Linked AbortSignal AbortSignal

fun aborted :: "nat set \<Rightarrow> AbortSignal \<Rightarrow> bool" where
  "aborted F (Source n) = (n \<in> F)"
| "aborted F (AnyOf a b) = (aborted F a \<or> aborted F b)"
| "aborted F (Linked a b) = (aborted F a \<or> aborted F b)"

text \<open>
  A content block is a block of type \<open>text\<close> with a string as its text, a block of type
  \<open>image\<close> with whatever it has as \<open>data\<close> and as \<open>mimeType\<close> (strings in a
  well-formed block, \<open>JUndefined\<close> for a missing field), or anything else.
\<close>

datatype ToolContentBlock =
    TextContent string
  | ImageContent json json
  | OtherContent json

record AgentToolResult =
  content :: "ToolContentBlock list"
  details :: json

text \<open>
  What a call can throw: the two errors of \<open>normalizeReadImageResult\<close> (with the file
  path, and for the second the sniffed and the declared type), the \<open>AbortError\<close>, the
  \<open>TypeError\<close> of calling a missing \<open>execute\<close>, and whatever a collaborator throws.
\<close>

datatype error =
    ImagePayloadEmpty string
  | NotAnImage string string string
  | AbortError
  | NotAFunction
  | Thrown json

text \<open>
  A call runs in a world: the cancellation sources fired so far, and the rest. A tool's
  \<open>execute\<close> takes the call id, the arguments and the per-call signal, and returns a
  result or throws (the \<open>onUpdate\<close> callback is only passed on and is left out).
\<close>

record 'e world =
  abortedSources :: "nat set"
  external :: 'e

type_synonym 'e execute =
  "string \<Rightarrow> json \<Rightarrow> AbortSignal option \<Rightarrow> 'e world \<Rightarrow> (error + AgentToolResult) \<times> 'e world"

record 'e AgentTool =
  name :: string
  parameters :: json
  execute :: "'e execute option"

definition callExecute :: "'e AgentTool \<Rightarrow> 'e execute" where
  "callExecute tool toolCallId params signal w =
     (case execute tool of
        Some f \<Rightarrow> f toolCallId params signal w
      | None \<Rightarrow> (Inl NotAFunction, w))"

definition normalizeToolParameters :: "(json \<Rightarrow> json) \<Rightarrow> 'e AgentTool \<Rightarrow> 'e AgentTool" where
  "normalizeToolParameters cleanSchemaForGemini tool =
     (let schema = parameters tool
      in if \<not> isObject schema then tool
         else if hasProp schema ''type'' \<and> hasProp schema ''properties'' \<and>
                 asArray (getProp schema ''anyOf'') = None
         then tool\<lparr>parameters := cleanSchemaForGemini schema\<rparr>
         else if \<not> hasProp schema ''type'' \<and>
                 (typeof (getProp schema ''properties'') = ''object'' \<or>
                  asArray (getProp schema ''required'') \<noteq> None) \<and>
                 asArray (getProp schema ''anyOf'') = None \<and>
                 asArray (getProp schema ''oneOf'') = None
         then tool\<lparr>parameters :=
                     cleanSchemaForGemini
                       (JObj (setProp (ownEntries schema) ''type'' (JStr ''object'')))\<rparr>
         else (case unionVariants schema of
                 None \<Rightarrow> tool
               | Some variants \<Rightarrow>
                   tool\<lparr>parameters := cleanSchemaForGemini (flattenUnionSchema schema variants)\<rparr>))"

section \<open>Correcting the result of the read tool\<close>

text \<open>
  \<open>detectMime\<close> is a collaborator. Its argument here is the base64 text that
  \<open>sniffMimeFromBase64\<close> decodes into the buffer it hands over; \<open>None\<close> stands for
  \<open>undefined\<close> and for an exception, which \<open>sniffMimeFromBase64\<close> catches and turns into
  \<open>undefined\<close>.
\<close>

definition sniffMimeFromBase64 :: "(string \<Rightarrow> string option) \<Rightarrow> string \<Rightarrow> string option" where
  "sniffMimeFromBase64 detectMime base64 =
     (let trimmed = trim base64
      in if trimmed = [] then None
         else
           (let take_n = min 256 (length trimmed);
                sliceLen = take_n - (take_n mod 4)
            in if sliceLen < 8 then None
               else detectMime (take sliceLen trimmed)))"

definition rewriteReadImageHeader :: "string \<Rightarrow> string \<Rightarrow> string" where
  "rewriteReadImageHeader text mimeType =
     (if startsWith text ''Read image file ['' \<and> endsWith text '']''
      then ''Read image file ['' @ mimeType @ '']''
      else text)"

text \<open>
  The predicate of \<open>content.find\<close>: a block of type \<open>image\<close> whose \<open>data\<close> and
  \<open>mimeType\<close> are strings.
\<close>

fun isImage :: "ToolContentBlock \<Rightarrow> bool" where
  "isImage (ImageContent (JStr d) (JStr m)) = True"
| "isImage b = False"

text \<open>
  The function mapped over the content to build \<open>nextContent\<close>: every block of type
  \<open>image\<close> gets the sniffed type, well-formed or not.
\<close>

fun rewriteBlock :: "string \<Rightarrow> ToolContentBlock \<Rightarrow> ToolContentBlock" where
  "rewriteBlock sniffed (ImageContent d m) = ImageContent d (JStr sniffed)"
| "rewriteBlock sniffed (TextContent t) = TextContent (rewriteReadImageHeader t sniffed)"
| "rewriteBlock sniffed (OtherContent j) = OtherContent j"

definition normalizeReadImageResult ::
  "(string \<Rightarrow> string option) \<Rightarrow> AgentToolResult \<Rightarrow> string \<Rightarrow> error + AgentToolResult" where
  "normalizeReadImageResult detectMime result filePath =
     (case find isImage (content result) of
        Some (ImageContent (JStr imageData) (JStr imageMimeType)) \<Rightarrow>
          if trim imageData = [] then Inl (ImagePayloadEmpty filePath)
          else
            (case sniffMimeFromBase64 detectMime imageData of
               None \<Rightarrow> Inr result
             | Some sniffed \<Rightarrow>
                 if sniffed = [] then Inr result
                 else if \<not> startsWith sniffed ''image/''
                 then Inl (NotAnImage sniffed imageMimeType filePath)
                 else if sniffed = imageMimeType then Inr result
                 else Inr (result\<lparr>content := map (rewriteBlock sniffed) (content result)\<rparr>))
      | _ \<Rightarrow> Inr result)"

section \<open>Wrappers around a tool's execute\<close>

text \<open>
  \<open>normalizeToolParams\<close> renames the keys of the other naming convention; each of its
  three steps moves the value of a legacy key to the canonical key when the legacy key is
  there and the canonical key is not.
\<close>

definition moveKey ::
  "(string \<times> json) list \<Rightarrow> string \<Rightarrow> string \<Rightarrow> (string \<times> json) list" where
  "moveKey normalized legacy canonical =
     (case map_of normalized legacy of
        Some v \<Rightarrow>
          if map_of normalized canonical = None
          then deleteProp (setProp normalized canonical v) legacy
          else normalized
      | None \<Rightarrow> normalized)"

definition normalizeToolParams :: "json \<Rightarrow> json option" where
  "normalizeToolParams params =
     (if \<not> isObject params then None
      else
        (let normalized0 = ownEntries params;
             normalized1 = moveKey normalized0 ''file_path'' ''path'';
             normalized2 = moveKey normalized1 ''old_string'' ''oldText'';
             normalized3 = moveKey normalized2 ''new_string'' ''newText''
         in Some (JObj normalized3)))"

definition wrapToolParamNormalization :: "'e AgentTool \<Rightarrow> 'e AgentTool" where
  "wrapToolParamNormalization tool =
     tool\<lparr>execute := Some (\<lambda>toolCallId params signal w.
       (let normalized = normalizeToolParams params
        in callExecute tool toolCallId
             (case normalized of Some n \<Rightarrow> n | None \<Rightarrow> params) signal w))\<rparr>"

text \<open>
  \<open>assertSandboxPath\<close> is a collaborator: given the path and the root it throws or
  does not.
\<close>

definition wrapSandboxPathGuard ::
  "(string \<Rightarrow> string \<Rightarrow> error option) \<Rightarrow> 'e AgentTool \<Rightarrow> string \<Rightarrow> 'e AgentTool" where
  "wrapSandboxPathGuard assertSandboxPath tool root =
     tool\<lparr>execute := Some (\<lambda>toolCallId args signal w.
       (let normalized = normalizeToolParams args;
            record = (case normalized of
                        Some n \<Rightarrow> n
                      | None \<Rightarrow> if isObject args then args else JUndefined);
            filePath = getProp record ''path'';
            thrown = (case filePath of
                        JStr p \<Rightarrow> if trim p \<noteq> [] then assertSandboxPath p root else None
                      | _ \<Rightarrow> None)
        in case thrown of
             Some err \<Rightarrow> (Inl err, w)
           | None \<Rightarrow>
               callExecute tool toolCallId
                 (case normalized of Some n \<Rightarrow> n | None \<Rightarrow> args) signal w))\<rparr>"

text \<open>\<open>sanitizeToolResultImages\<close> is a collaborator.\<close>

definition createClawdbotReadTool ::
  "(string \<Rightarrow> string option) \<Rightarrow> (AgentToolResult \<Rightarrow> string \<Rightarrow> error + AgentToolResult) \<Rightarrow>
   'e AgentTool \<Rightarrow> 'e AgentTool" where
  "createClawdbotReadTool detectMime sanitizeToolResultImages base =
     base\<lparr>execute := Some (\<lambda>toolCallId params signal w.
       (let normalized = normalizeToolParams params;
            record = (case normalized of Some n \<Rightarrow> n | None \<Rightarrow> params)
        in case callExecute base toolCallId record signal w of
             (Inl err, w') \<Rightarrow> (Inl err, w')
           | (Inr result, w') \<Rightarrow>
               (let filePath = (case getProp record ''path'' of
                                  JStr p \<Rightarrow> p
                                | _ \<Rightarrow> ''<unknown>'')
                in case normalizeReadImageResult detectMime result filePath of
                     Inl err \<Rightarrow> (Inl err, w')
                   | Inr normalizedResult \<Rightarrow>
                       (sanitizeToolResultImages normalizedResult (''read:'' @ filePath), w'))))\<rparr>"

text \<open>
  \<open>combineAbortSignals\<close> reads the \<open>aborted\<close> flags, so it takes the set of the
  sources fired at the time of the call; \<open>hasAbortSignalAny\<close> says whether the runtime
  has \<open>AbortSignal.any\<close>.
\<close>

definition combineAbortSignals ::
  "bool \<Rightarrow> nat set \<Rightarrow> AbortSignal option \<Rightarrow> AbortSignal option \<Rightarrow> AbortSignal option" where
  "combineAbortSignals hasAbortSignalAny F a b =
     (if a = None \<and> b = None then None
      else if a \<noteq> None \<and> b = None then a
      else if b \<noteq> None \<and> a = None then b
      else
        (case a of
           None \<Rightarrow> None
         | Some sa \<Rightarrow>
             (case b of
                None \<Rightarrow> None
              | Some sb \<Rightarrow>
                  if aborted F sa then a
                  else if aborted F sb then b
                  else if hasAbortSignalAny then Some (AnyOf sa sb)
                  else Some (Linked sa sb))))"

definition wrapToolWithAbortSignal ::
  "bool \<Rightarrow> 'e AgentTool \<Rightarrow> AbortSignal option \<Rightarrow> 'e AgentTool" where
  "wrapToolWithAbortSignal hasAbortSignalAny tool abortSignal =
     (case abortSignal of
        None \<Rightarrow> tool
      | Some assemblySignal \<Rightarrow>
          (case execute tool of
             None \<Rightarrow> tool
           | Some exec \<Rightarrow>
               tool\<lparr>execute := Some (\<lambda>toolCallId params signal w.
                 (let combined = combineAbortSignals hasAbortSignalAny (abortedSources w)
                                   signal (Some assemblySignal)
                  in if (case combined of
                           Some c \<Rightarrow> aborted (abortedSources w) c
                         | None \<Rightarrow> False)
                     then (Inl AbortError, w)
                     else exec toolCallId params combined w))\<rparr>))"

section \<open>Configuration, sandbox and options\<close>

text \<open>
  Of the sandbox context the assembly reads the enabled flag, the workspace directory, the
  workspace access mode (it compares it with \<open>"ro"\<close>) and the sandbox tool policy; the
  other fields are only handed to collaborators.
\<close>

record SandboxContext =
  sandboxEnabled :: bool
  sandboxWorkspaceDir :: string
  workspaceAccess :: string
  sandboxTools :: "SandboxToolPolicy option"

text \<open>
  Of the configuration the assembly reads \<open>config.tools\<close>: its \<open>allow\<close> and \<open>deny\<close>
  lists (\<open>toolsPolicy\<close>), \<open>tools.exec.applyPatch\<close> and \<open>tools.subagents.tools\<close>. The
  rest of the document is the extension part of the record; \<open>resolveAgentConfig\<close>, a
  collaborator, reads the per-agent part from it.
\<close>

record ApplyPatchConfig =
  enabled :: "bool option"
  allowModels :: "string list option"

record ToolsConfig =
  toolsPolicy :: SandboxToolPolicy
  applyPatch :: "ApplyPatchConfig option"
  subagentsTools :: "SandboxToolPolicy option"

record ClawdbotConfig =
  tools :: "ToolsConfig option"

record AgentConfig =
  agentTools :: "SandboxToolPolicy option"

text \<open>
  The options of \<open>createClawdbotCodingTools\<close> that the assembly itself reads
  (\<open>execScopeKey\<close> is \<open>options.exec.scopeKey\<close>); missing options are all \<open>None\<close>.
\<close>

record 'c Options =
  execScopeKey :: "string option"
  sandbox :: "SandboxContext option"
  sessionKey :: "string option"
  workspaceDir :: "string option"
  config :: "'c ClawdbotConfig_scheme option"
  abortSignal :: "AbortSignal option"
  modelProvider :: "string option"
  modelId :: "string option"

text \<open>
  The collaborators: functions and values of other modules and packages. \<open>readToolName\<close>
  is \<open>readTool.name\<close>, \<open>processCwd\<close> is \<open>process.cwd()\<close>. \<open>createExecTool\<close> gets
  the working directory, the background flag, the scope key and the sandbox;
  \<open>createProcessTool\<close> the scope key; \<open>createApplyPatchTool\<close> the working directory
  and the sandbox root; \<open>createClawdbotTools\<close> the options and the sandbox in effect,
  from which all its arguments are taken.
\<close>

record ('e, 'c) Collaborators =
  resolveAgentIdFromSessionKey :: "string \<Rightarrow> string"
  resolveAgentConfig :: "'c ClawdbotConfig_scheme \<Rightarrow> string \<Rightarrow> AgentConfig option"
  isSubagentSessionKey :: "string option \<Rightarrow> bool"
  codingTools :: "'e AgentTool list"
  readToolName :: string
  createReadTool :: "string \<Rightarrow> 'e AgentTool"
  createWriteTool :: "string \<Rightarrow> 'e AgentTool"
  createEditTool :: "string \<Rightarrow> 'e AgentTool"
  createExecTool :: "string option \<Rightarrow> bool \<Rightarrow> string option \<Rightarrow> SandboxContext option \<Rightarrow> 'e AgentTool"
  createProcessTool :: "string option \<Rightarrow> 'e AgentTool"
  createApplyPatchTool :: "string \<Rightarrow> string option \<Rightarrow> 'e AgentTool"
  listProviderAgentTools :: "'c ClawdbotConfig_scheme option \<Rightarrow> 'e AgentTool list"
  createClawdbotTools :: "'c Options \<Rightarrow> SandboxContext option \<Rightarrow> 'e AgentTool list"
  cleanSchemaForGemini :: "json \<Rightarrow> json"
  detectMime :: "string \<Rightarrow> string option"
  assertSandboxPath :: "string \<Rightarrow> string \<Rightarrow> error option"
  sanitizeToolResultImages :: "AgentToolResult \<Rightarrow> string \<Rightarrow> error + AgentToolResult"
  processCwd :: string
  hasAbortSignalAny :: bool

section \<open>Policy resolution\<close>

definition isOpenAIProvider :: "string option \<Rightarrow> bool" where
  "isOpenAIProvider provider =
     (case provider of
        None \<Rightarrow> False
      | Some p \<Rightarrow>
          (let normalized = toLowerCase (trim p)
           in normalized = ''openai'' \<or> normalized = ''openai-codex''))"

definition isApplyPatchAllowedForModel ::
  "string option \<Rightarrow> string option \<Rightarrow> string list option \<Rightarrow> bool" where
  "isApplyPatchAllowedForModel provider0 modelId0 allowModels0 =
     (let allowed = (case allowModels0 of Some xs \<Rightarrow> xs | None \<Rightarrow> [])
      in if length allowed = 0 then True
         else
           (case map_option trim modelId0 of
              None \<Rightarrow> False
            | Some trimmedId \<Rightarrow>
                if trimmedId = [] then False
                else
                  (let normalizedModelId = toLowerCase trimmedId;
                       provider = map_option (\<lambda>p. toLowerCase (trim p)) provider0;
                       normalizedFull =
                         (case provider of
                            Some p \<Rightarrow>
                              if p \<noteq> [] \<and> CHR ''/'' \<notin> set normalizedModelId
                              then p @ ''/'' @ normalizedModelId
                              else normalizedModelId
                          | None \<Rightarrow> normalizedModelId)
                   in list_ex (\<lambda>entry.
                        (let normalized = toLowerCase (trim entry)
                         in if normalized = [] then False
                            else normalized = normalizedModelId \<or> normalized = normalizedFull))
                      allowed)))"

definition DEFAULT_SUBAGENT_TOOL_DENY :: "string list" where
  "DEFAULT_SUBAGENT_TOOL_DENY =
     [''sessions_list'', ''sessions_history'', ''sessions_send'', ''sessions_spawn'']"

definition resolveSubagentToolPolicy :: "'c ClawdbotConfig_scheme option \<Rightarrow> SandboxToolPolicy" where
  "resolveSubagentToolPolicy cfg =
     (let configured = Option.bind (Option.bind cfg tools) subagentsTools
      in \<lparr>allow = Option.bind configured allow,
          deny = Some (DEFAULT_SUBAGENT_TOOL_DENY @
                       (case Option.bind configured deny of Some d \<Rightarrow> d | None \<Rightarrow> []))\<rparr>)"

definition filterToolsByPolicy ::
  "'e AgentTool list \<Rightarrow> SandboxToolPolicy option \<Rightarrow> 'e AgentTool list" where
  "filterToolsByPolicy ts pol =
     (case pol of
        None \<Rightarrow> ts
      | Some p \<Rightarrow> filter (\<lambda>tool. isToolAllowedByPolicyName (name tool) (Some p)) ts)"

record EffectiveToolPolicy =
  agentId :: "string option"
  policy :: "SandboxToolPolicy option"

definition resolveEffectiveToolPolicy ::
  "('e, 'c) Collaborators \<Rightarrow> 'c ClawdbotConfig_scheme option \<Rightarrow> string option \<Rightarrow>
   EffectiveToolPolicy" where
  "resolveEffectiveToolPolicy C cfg key =
     (let resolvedId =
            (case key of
               Some k \<Rightarrow> if k \<noteq> [] then Some (resolveAgentIdFromSessionKey C k) else None
             | None \<Rightarrow> None);
          agentConfig =
            (case (cfg, resolvedId) of
               (Some c, Some a) \<Rightarrow> if a \<noteq> [] then resolveAgentConfig C c a else None
             | _ \<Rightarrow> None);
          agentToolsPolicy = Option.bind agentConfig agentTools;
          hasAgentToolPolicy =
            (case agentToolsPolicy of
               Some t \<Rightarrow> allow t \<noteq> None \<or> deny t \<noteq> None
             | None \<Rightarrow> False);
          globalTools = map_option toolsPolicy (Option.bind cfg tools)
      in \<lparr>agentId = resolvedId,
          policy = (if hasAgentToolPolicy then agentToolsPolicy else globalTools)\<rparr>)"

definition isToolAllowedByPolicy :: "string \<Rightarrow> SandboxToolPolicy option \<Rightarrow> bool" where
  "isToolAllowedByPolicy nm pol = isToolAllowedByPolicyName nm pol"

definition isToolAllowedByPolicies :: "string \<Rightarrow> SandboxToolPolicy option list \<Rightarrow> bool" where
  "isToolAllowedByPolicies nm policies = list_all (\<lambda>pol. isToolAllowedByPolicy nm pol) policies"

section \<open>Tool assembly\<close>

definition createSandboxedReadTool :: "('e, 'c) Collaborators \<Rightarrow> string \<Rightarrow> 'e AgentTool" where
  "createSandboxedReadTool C root =
     wrapSandboxPathGuard (assertSandboxPath C)
       (createClawdbotReadTool (detectMime C) (sanitizeToolResultImages C) (createReadTool C root))
       root"

definition createSandboxedWriteTool :: "('e, 'c) Collaborators \<Rightarrow> string \<Rightarrow> 'e AgentTool" where
  "createSandboxedWriteTool C root =
     wrapSandboxPathGuard (assertSandboxPath C)
       (wrapToolParamNormalization (createWriteTool C root)) root"

definition createSandboxedEditTool :: "('e, 'c) Collaborators \<Rightarrow> string \<Rightarrow> 'e AgentTool" where
  "createSandboxedEditTool C root =
     wrapSandboxPathGuard (assertSandboxPath C)
       (wrapToolParamNormalization (createEditTool C root)) root"

text \<open>
  The local values of \<open>createClawdbotCodingTools\<close>, each under the name it has there
  (\<open>sandboxInEffect\<close> is the local \<open>sandbox\<close>). \<open>truthyRoot\<close> is \<open>sandboxRoot\<close> where
  the code tests it for truth: a sandbox root that is not the empty string.
\<close>

definition sandboxInEffect :: "'c Options \<Rightarrow> SandboxContext option" where
  "sandboxInEffect options =
     (case sandbox options of
        Some sb \<Rightarrow> if sandboxEnabled sb then Some sb else None
      | None \<Rightarrow> None)"

definition sandboxRoot :: "'c Options \<Rightarrow> string option" where
  "sandboxRoot options = map_option sandboxWorkspaceDir (sandboxInEffect options)"

definition truthyRoot :: "'c Options \<Rightarrow> string option" where
  "truthyRoot options =
     (case sandboxRoot options of
        Some r \<Rightarrow> if r \<noteq> [] then Some r else None
      | None \<Rightarrow> None)"

definition allowWorkspaceWrites :: "'c Options \<Rightarrow> bool" where
  "allowWorkspaceWrites options =
     (map_option workspaceAccess (sandboxInEffect options) \<noteq> Some ''ro'')"

definition workspaceRoot :: "('e, 'c) Collaborators \<Rightarrow> 'c Options \<Rightarrow> string" where
  "workspaceRoot C options =
     (case workspaceDir options of Some d \<Rightarrow> d | None \<Rightarrow> processCwd C)"

definition applyPatchConfig :: "'c Options \<Rightarrow> ApplyPatchConfig option" where
  "applyPatchConfig options = Option.bind (Option.bind (config options) tools) applyPatch"

definition applyPatchEnabled :: "'c Options \<Rightarrow> bool" where
  "applyPatchEnabled options =
     (Option.bind (applyPatchConfig options) enabled = Some True \<and>
      isOpenAIProvider (modelProvider options) \<and>
      isApplyPatchAllowedForModel (modelProvider options) (modelId options)
        (Option.bind (applyPatchConfig options) allowModels))"

definition applyPatchTool :: "('e, 'c) Collaborators \<Rightarrow> 'c Options \<Rightarrow> 'e AgentTool option" where
  "applyPatchTool C options =
     (if \<not> applyPatchEnabled options \<or>
         (truthyRoot options \<noteq> None \<and> \<not> allowWorkspaceWrites options)
      then None
      else Some (createApplyPatchTool C
                   (case sandboxRoot options of Some r \<Rightarrow> r | None \<Rightarrow> workspaceRoot C options)
                   (if allowWorkspaceWrites options then truthyRoot options else None)))"

definition subagentPolicy :: "('e, 'c) Collaborators \<Rightarrow> 'c Options \<Rightarrow> SandboxToolPolicy option" where
  "subagentPolicy C options =
     (if isSubagentSessionKey C (sessionKey options) \<and>
         sessionKey options \<noteq> None \<and> sessionKey options \<noteq> Some []
      then Some (resolveSubagentToolPolicy (config options)) else None)"

text \<open>The function that is flat-mapped over \<open>codingTools\<close> to build \<open>base\<close>.\<close>

definition baseToolFor ::
  "('e, 'c) Collaborators \<Rightarrow> 'c Options \<Rightarrow> 'e AgentTool \<Rightarrow> 'e AgentTool list" where
  "baseToolFor C options tool =
     (if name tool = readToolName C then
        (case truthyRoot options of
           Some r \<Rightarrow> [createSandboxedReadTool C r]
         | None \<Rightarrow>
             [createClawdbotReadTool (detectMime C) (sanitizeToolResultImages C)
                (createReadTool C (workspaceRoot C options))])
      else if name tool = ''bash'' \<or> name tool = ''exec'' then []
      else if name tool = ''write'' then
        (case truthyRoot options of
           Some r \<Rightarrow> []
         | None \<Rightarrow> [wrapToolParamNormalization (createWriteTool C (workspaceRoot C options))])
      else if name tool = ''edit'' then
        (case truthyRoot options of
           Some r \<Rightarrow> []
         | None \<Rightarrow> [wrapToolParamNormalization (createEditTool C (workspaceRoot C options))])
      else [tool])"

definition assembledTools :: "('e, 'c) Collaborators \<Rightarrow> 'c Options \<Rightarrow> 'e AgentTool list" where
  "assembledTools C options =
     (let effective = resolveEffectiveToolPolicy C (config options) (sessionKey options);
          scopeKey =
            (case execScopeKey options of
               Some k \<Rightarrow> Some k
             | None \<Rightarrow>
                 (case agentId effective of
                    Some a \<Rightarrow> if a \<noteq> [] then Some (''agent:'' @ a) else None
                  | None \<Rightarrow> None));
          allowBackground =
            isToolAllowedByPolicies ''process''
              [policy effective, Option.bind (sandboxInEffect options) sandboxTools,
               subagentPolicy C options];
          base = concat (map (baseToolFor C options) (codingTools C));
          execTool = createExecTool C (workspaceDir options) allowBackground scopeKey
                       (sandboxInEffect options);
          processTool = createProcessTool C scopeKey
      in base @
         (case truthyRoot options of
            Some r \<Rightarrow>
              if allowWorkspaceWrites options
              then [createSandboxedEditTool C r, createSandboxedWriteTool C r]
              else []
          | None \<Rightarrow> []) @
         (case applyPatchTool C options of Some t \<Rightarrow> [t] | None \<Rightarrow> []) @
         [execTool, processTool] @
         listProviderAgentTools C (config options) @
         createClawdbotTools C options (sandboxInEffect options))"

text \<open>
  \<open>assembledTools\<close> is the local list \<open>tools\<close>; the rest of
  \<open>createClawdbotCodingTools\<close> filters it by the three policies, normalizes the schemas
  and binds the cancellation signal.
\<close>

definition createClawdbotCodingTools ::
  "('e, 'c) Collaborators \<Rightarrow> 'c Options \<Rightarrow> 'e AgentTool list" where
  "createClawdbotCodingTools C options =
     (let effectiveToolsPolicy =
            policy (resolveEffectiveToolPolicy C (config options) (sessionKey options));
          toolsFiltered =
            (case effectiveToolsPolicy of
               Some p \<Rightarrow> filterToolsByPolicy (assembledTools C options) (Some p)
             | None \<Rightarrow> assembledTools C options);
          sandboxed =
            (case sandboxInEffect options of
               Some sb \<Rightarrow> filterToolsByPolicy toolsFiltered (sandboxTools sb)
             | None \<Rightarrow> toolsFiltered);
          subagentFiltered =
            (case subagentPolicy C options of
               Some p \<Rightarrow> filterToolsByPolicy sandboxed (Some p)
             | None \<Rightarrow> sandboxed);
          normalized = map (normalizeToolParameters (cleanSchemaForGemini C)) subagentFiltered;
          withAbort =
            (case abortSignal options of
               Some s \<Rightarrow>
                 map (\<lambda>tool. wrapToolWithAbortSignal (hasAbortSignalAny C) tool (Some s))
                   normalized
             | None \<Rightarrow> normalized)
      in withAbort)"

text \<open>The write and edit tools are the tools of those names.\<close>

definition isWriteOrEdit :: "'e AgentTool \<Rightarrow> bool" where
  "isWriteOrEdit t = (name t = ''write'' \<or> name t = ''edit'')"

section \<open>Collaborators used in examples\<close>

text \<open>A detector that knows the PNG signature, whose base64 form starts with \<open>iVBORw0KGgo\<close>.\<close>

definition pngSniffer :: "string \<Rightarrow> string option" where
  "pngSniffer head = (if startsWith head ''iVBORw0KGgo'' then Some ''image/png'' else None)"

text \<open>
  A tool whose \<open>execute\<close> leaves a mark in the world, and a set of collaborators that
  supply a read, a write and an edit tool as coding tools, an exec and a process tool, a
  patch tool, and nothing else; agents have no configuration of their own.
\<close>

definition markerTool :: "string \<Rightarrow> bool AgentTool" where
  "markerTool nm =
     \<lparr>name = nm, parameters = JObj [],
      execute = Some (\<lambda>toolCallId params signal w.
        (Inr \<lparr>content = [TextContent nm], details = JNull\<rparr>, w\<lparr>external := True\<rparr>))\<rparr>"

definition exampleCollaborators :: "(bool, unit) Collaborators" where
  "exampleCollaborators =
     \<lparr>resolveAgentIdFromSessionKey = (\<lambda>k. ''main''),
      resolveAgentConfig = (\<lambda>c a. None),
      isSubagentSessionKey = (\<lambda>k. False),
      codingTools = [markerTool ''read'', markerTool ''bash'', markerTool ''edit'',
                     markerTool ''write''],
      readToolName = ''read'',
      createReadTool = (\<lambda>root. markerTool ''read''),
      createWriteTool = (\<lambda>root. markerTool ''write''),
      createEditTool = (\<lambda>root. markerTool ''edit''),
      createExecTool = (\<lambda>cwd background scope sb. markerTool ''exec''),
      createProcessTool = (\<lambda>scope. markerTool ''process''),
      createApplyPatchTool = (\<lambda>cwd root. markerTool ''apply_patch''),
      listProviderAgentTools = (\<lambda>c. []),
      createClawdbotTools = (\<lambda>options sb. []),
      cleanSchemaForGemini = (\<lambda>schema. schema),
      detectMime = pngSniffer,
      assertSandboxPath = (\<lambda>p root. None),
      sanitizeToolResultImages = (\<lambda>r label. Inr r),
      processCwd = ''/home/user'',
      hasAbortSignalAny = True\<rparr>"

text \<open>Collaborators under which every agent has a tools policy of its own.\<close>

definition agentOverride :: "(bool, unit) Collaborators" where
  "agentOverride =
     exampleCollaborators\<lparr>resolveAgentConfig :=
       (\<lambda>c a. Some \<lparr>agentTools = Some \<lparr>allow = None, deny = Some [''write'']\<rparr>\<rparr>)\<rparr>"

text \<open>
  Collaborators under which every agent has a tools configuration with an empty allow list
  and an empty deny list.
\<close>

definition emptyAgentLists :: "(bool, unit) Collaborators" where
  "emptyAgentLists =
     exampleCollaborators\<lparr>resolveAgentConfig :=
       (\<lambda>c a. Some \<lparr>agentTools = Some \<lparr>allow = Some [], deny = Some []\<rparr>\<rparr>)\<rparr>"

text \<open>
  Options with nothing but an enabled read-only sandbox on the given workspace directory,
  and options under which the patch tool is enabled for the model, with the given sandbox.
\<close>

definition readOnlyOptions :: "string \<Rightarrow> unit Options" where
  "readOnlyOptions dir =
     \<lparr>execScopeKey = None,
      sandbox = Some \<lparr>sandboxEnabled = True, sandboxWorkspaceDir = dir,
                      workspaceAccess = ''ro'', sandboxTools = None\<rparr>,
      sessionKey = None, workspaceDir = None, config = None, abortSignal = None,
      modelProvider = None, modelId = None\<rparr>"


section \<open>Auxiliary notions of the proofs\<close>

text \<open>The count a \<open>Map\<close> of counters holds for a key, and the \<open>required\<close> array of an alternative.\<close>

definition countOf :: "(string \<times> nat) list \<Rightarrow> string \<Rightarrow> nat" where
  "countOf rc k = (case map_of rc k of Some c \<Rightarrow> c | None \<Rightarrow> 0)"

definition requiredArray :: "json \<Rightarrow> json list" where
  "requiredArray e = (case asArray (getProp e ''required'') of Some r \<Rightarrow> r | None \<Rightarrow> [])"


chapter \<open>Verification\<close>

section \<open>Facts about the policy check\<close>

lemmas norm_eval =
  normalizeToolName_def trim_def isWhiteSpace_def toLowerCase_def toLowerChar_def
  upperCaseChars_def lowerCaseChars_def TOOL_NAME_ALIASES_def

lemma normalizeToolName_bash: "normalizeToolName ''bash'' = ''exec''"
  by (simp add: norm_eval)

lemma normalizeToolName_exec: "normalizeToolName ''exec'' = ''exec''"
  by (simp add: norm_eval)

lemma normalizeToolName_apply_patch: "normalizeToolName ''apply_patch'' = ''apply_patch''"
  by (simp add: norm_eval)

lemma normalizeToolName_apply_dash_patch: "normalizeToolName ''apply-patch'' = ''apply_patch''"
  by (simp add: norm_eval)

lemma normalizeToolName_read: "normalizeToolName ''read'' = ''read''"
  by (simp add: norm_eval)

lemma normalizeToolName_blank: "normalizeToolName ''  '' = []"
  by (simp add: norm_eval)

lemma normalizeToolName_empty: "normalizeToolName [] = []"
  by (simp add: norm_eval)

lemma isToolAllowedByPolicyName_unfold:
  "isToolAllowedByPolicyName nm (Some p) =
     (normalizeToolName nm \<notin> set (normalizeToolNames (deny p)) \<and>
      (normalizeToolNames (allow p) = [] \<or>
       normalizeToolName nm \<in> set (normalizeToolNames (allow p)) \<or>
       (normalizeToolName nm = ''apply_patch'' \<and>
        ''exec'' \<in> set (normalizeToolNames (allow p)))))"
  by (auto simp: isToolAllowedByPolicyName_def Let_def)

lemma normalizeToolNames_mem:
  "x \<in> set (normalizeToolNames (Some xs)) \<longleftrightarrow> x \<noteq> [] \<and> x \<in> normalizeToolName ` set xs"
  by (auto simp: normalizeToolNames_def)

text \<open>
  C10. Whenever the allow list of a policy has an entry that normalizes to \<open>exec\<close> (the
  name itself or its alias \<open>bash\<close>, in any letter case and with any surrounding white
  space), so that the allow set is not empty, and no deny entry normalizes to
  \<open>apply_patch\<close>, every tool name that normalizes to \<open>apply_patch\<close> passes the check,
  whether or not the allow list names it.
\<close>

theorem exec_allows_apply_patch:
  assumes "allow p = Some xs" and "e \<in> set xs" and "normalizeToolName e = ''exec''"
    and "''apply_patch'' \<notin> set (normalizeToolNames (deny p))"
    and "normalizeToolName nm = ''apply_patch''"
  shows "isToolAllowedByPolicyName nm (Some p)"
proof -
  from assms(1,2,3) have "''exec'' \<in> set (normalizeToolNames (allow p))"
    by (force simp: normalizeToolNames_mem)
  with assms(4,5) show ?thesis
    by (auto simp: isToolAllowedByPolicyName_unfold)
qed

theorem exec_allows_apply_patch_witness:
  "isToolAllowedByPolicyName ''apply_patch''
     (Some \<lparr>allow = Some [''read'', ''bash''], deny = Some [''write'']\<rparr>) \<and>
   ''apply_patch'' \<notin> set (normalizeToolNames (Some [''read'', ''bash'']))"
proof -
  have a: "''apply_patch'' \<notin> set (normalizeToolNames (Some [''read'', ''bash'']))"
    by (simp add: normalizeToolNames_def norm_eval)
  have "isToolAllowedByPolicyName ''apply_patch''
     (Some \<lparr>allow = Some [''read'', ''bash''], deny = Some [''write'']\<rparr>)"
    by (rule exec_allows_apply_patch [where xs = "[''read'', ''bash'']" and e = "''bash''"])
       (simp_all add: normalizeToolNames_def norm_eval)
  with a show ?thesis by simp
qed

text \<open>
  C9. A policy whose allow list is present but empty, or whose allow entries all normalize
  to the empty string, is treated as a policy without an allow list: a tool name is allowed
  exactly when its normalized form is not in the normalized deny set, and the verdict is the
  one of the same policy with the allow list removed.
\<close>

theorem empty_allow_is_no_allow:
  assumes "allow p = Some xs" and "\<forall>e \<in> set xs. normalizeToolName e = []"
  shows "isToolAllowedByPolicyName nm (Some p) =
           (normalizeToolName nm \<notin> set (normalizeToolNames (deny p))) \<and>
         isToolAllowedByPolicyName nm (Some p) =
           isToolAllowedByPolicyName nm (Some (p\<lparr>allow := None\<rparr>))"
proof -
  from assms have "normalizeToolNames (allow p) = []"
    by (auto simp: normalizeToolNames_def filter_empty_conv)
  moreover have "normalizeToolNames (allow (p\<lparr>allow := None\<rparr>)) = []"
    by (simp add: normalizeToolNames_def)
  ultimately show ?thesis
    by (simp add: isToolAllowedByPolicyName_unfold)
qed

theorem empty_allow_is_no_allow_witness:
  "isToolAllowedByPolicyName ''read''
     (Some \<lparr>allow = Some [[], ''  ''], deny = Some [''exec'']\<rparr>) \<and>
   isToolAllowedByPolicyName ''read'' (Some \<lparr>allow = Some [], deny = Some [''exec'']\<rparr>) \<and>
   \<not> isToolAllowedByPolicyName ''bash'' (Some \<lparr>allow = Some [], deny = Some [''exec'']\<rparr>)"
proof -
  have h1: "\<forall>e \<in> set [[], ''  '']. normalizeToolName e = []"
    by (simp add: normalizeToolName_blank normalizeToolName_empty)
  have h2: "\<forall>e \<in> set ([] :: string list). normalizeToolName e = []"
    by simp
  show ?thesis
    using empty_allow_is_no_allow
            [of "\<lparr>allow = Some [[], ''  ''], deny = Some [''exec'']\<rparr>" "[[], ''  '']" "''read''",
             OF _ h1]
          empty_allow_is_no_allow
            [of "\<lparr>allow = Some [], deny = Some [''exec'']\<rparr>" "[]" "''read''", OF _ h2]
          empty_allow_is_no_allow
            [of "\<lparr>allow = Some [], deny = Some [''exec'']\<rparr>" "[]" "''bash''", OF _ h2]
    by (simp add: normalizeToolNames_def normalizeToolName_exec normalizeToolName_read
        normalizeToolName_bash)
qed

text \<open>
  C1, as stated, fails: with the allow list \<open>["exec"]\<close> the name \<open>apply_patch\<close> is
  allowed although its normalized form is not in the allow set.
\<close>

theorem allow_set_membership_counterexample:
  "isToolAllowedByPolicyName ''apply_patch'' (Some \<lparr>allow = Some [''exec''], deny = None\<rparr>) \<and>
   normalizeToolNames (Some [''exec'']) \<noteq> [] \<and>
   normalizeToolName ''apply_patch'' \<notin> set (normalizeToolNames (Some [''exec'']))"
  by (simp add: isToolAllowedByPolicyName_def normalizeToolNames_def
      normalizeToolName_exec normalizeToolName_apply_patch)

text \<open>
  C1 (amended). For every tool name and every policy, the name is trimmed, lower-cased and
  sent through the alias table (\<open>bash\<close> to \<open>exec\<close>, \<open>apply-patch\<close> to
  \<open>apply_patch\<close>); every allow and deny entry is normalized the same way, and entries
  that normalize to the empty string are dropped. Then: a normalized name in the deny set
  is rejected, also when it is in the allow set; otherwise, when the allow set is empty
  (no allow list, or no entry left) the name is allowed; otherwise the name is allowed
  exactly when its normalized form is in the allow set, or it is \<open>apply_patch\<close> and the
  allow set contains \<open>exec\<close>. A policy absent altogether allows every name. A policy
  whose deny list has \<open>exec\<close> rejects the alias \<open>bash\<close>.
\<close>

theorem isToolAllowedByPolicyName_rule:
  fixes nm :: string and p :: SandboxToolPolicy
  defines "n \<equiv> normalizeToolName nm"
    and "D \<equiv> set (normalizeToolNames (deny p))"
    and "A \<equiv> set (normalizeToolNames (allow p))"
  shows "n = (if toLowerCase (trim nm) = ''bash'' then ''exec''
              else if toLowerCase (trim nm) = ''apply-patch'' then ''apply_patch''
              else toLowerCase (trim nm)) \<and>
         (\<forall>xs. set (normalizeToolNames (Some xs)) = normalizeToolName ` set xs - {[]}) \<and>
         normalizeToolNames None = [] \<and>
         (n \<in> D \<longrightarrow> \<not> isToolAllowedByPolicyName nm (Some p)) \<and>
         (n \<notin> D \<and> A = {} \<longrightarrow> isToolAllowedByPolicyName nm (Some p)) \<and>
         (n \<notin> D \<and> A \<noteq> {} \<longrightarrow>
            isToolAllowedByPolicyName nm (Some p) =
              (n \<in> A \<or> (n = ''apply_patch'' \<and> ''exec'' \<in> A))) \<and>
         isToolAllowedByPolicyName nm None \<and>
         (''exec'' \<in> D \<longrightarrow> \<not> isToolAllowedByPolicyName ''bash'' (Some p))"
proof -
  have 1: "n = (if toLowerCase (trim nm) = ''bash'' then ''exec''
              else if toLowerCase (trim nm) = ''apply-patch'' then ''apply_patch''
              else toLowerCase (trim nm))"
    by (simp add: n_def normalizeToolName_def TOOL_NAME_ALIASES_def)
  have 2: "\<forall>xs. set (normalizeToolNames (Some xs)) = normalizeToolName ` set xs - {[]}"
    by (auto simp: normalizeToolNames_def)
  have 3: "normalizeToolNames None = []"
    by (simp add: normalizeToolNames_def)
  have 4: "isToolAllowedByPolicyName nm None"
    by (simp add: isToolAllowedByPolicyName_def)
  have 5: "''exec'' \<in> D \<longrightarrow> \<not> isToolAllowedByPolicyName ''bash'' (Some p)"
    by (simp add: D_def isToolAllowedByPolicyName_unfold normalizeToolName_bash)
  have 6: "n \<in> D \<longrightarrow> \<not> isToolAllowedByPolicyName nm (Some p)"
    by (simp add: isToolAllowedByPolicyName_unfold n_def D_def)
  have 7: "n \<notin> D \<and> A = {} \<longrightarrow> isToolAllowedByPolicyName nm (Some p)"
    by (simp add: isToolAllowedByPolicyName_unfold n_def D_def A_def)
  have 8: "n \<notin> D \<and> A \<noteq> {} \<longrightarrow>
            isToolAllowedByPolicyName nm (Some p) =
              (n \<in> A \<or> (n = ''apply_patch'' \<and> ''exec'' \<in> A))"
    by (simp add: isToolAllowedByPolicyName_unfold n_def D_def A_def)
  from 1 2 3 4 5 6 7 8 show ?thesis
    by blast
qed

theorem isToolAllowedByPolicyName_rule_witness:
  "\<not> isToolAllowedByPolicyName ''bash'' (Some \<lparr>allow = Some [''bash''], deny = Some [''exec'']\<rparr>) \<and>
   isToolAllowedByPolicyName ''read'' (Some \<lparr>allow = None, deny = Some [''exec'']\<rparr>) \<and>
   isToolAllowedByPolicyName ''read'' (Some \<lparr>allow = Some [''read''], deny = None\<rparr>) \<and>
   \<not> isToolAllowedByPolicyName ''exec'' (Some \<lparr>allow = Some [''read''], deny = None\<rparr>)"
  using isToolAllowedByPolicyName_rule
          [of "''bash''" "\<lparr>allow = Some [''bash''], deny = Some [''exec'']\<rparr>"]
        isToolAllowedByPolicyName_rule [of "''read''" "\<lparr>allow = None, deny = Some [''exec'']\<rparr>"]
        isToolAllowedByPolicyName_rule [of "''read''" "\<lparr>allow = Some [''read''], deny = None\<rparr>"]
        isToolAllowedByPolicyName_rule [of "''exec''" "\<lparr>allow = Some [''read''], deny = None\<rparr>"]
  by (simp add: normalizeToolNames_def normalizeToolName_exec normalizeToolName_read
      normalizeToolName_bash)

section \<open>Facts about schema normalization\<close>

lemma set_firstSeen [simp]: "set (firstSeen xs) = set xs"
  by (induction xs) auto

lemma distinct_firstSeen [simp]: "distinct (firstSeen xs)"
  by (induction xs) auto

lemma newSet_firstSeen_acc:
  "newSet acc xs = acc @ filter (\<lambda>y. y \<notin> set acc) (firstSeen xs)"
proof (induction xs arbitrary: acc)
  case Nil
  then show ?case by simp
next
  case (Cons x xs)
  have eq: "filter (\<lambda>y. y \<notin> set acc) (filter (\<lambda>y. y \<noteq> x) ys) =
            filter (\<lambda>y. y \<noteq> x \<and> y \<notin> set acc) ys" for ys
    by (induction ys) auto
  show ?case
  proof (cases "x \<in> set acc")
    case True
    then have "filter (\<lambda>y. y \<noteq> x \<and> y \<notin> set acc) ys = filter (\<lambda>y. y \<notin> set acc) ys" for ys
      by (intro filter_cong) auto
    with True Cons show ?thesis by (simp add: eq)
  next
    case False
    have "filter (\<lambda>y. y \<notin> set (acc @ [x])) ys = filter (\<lambda>y. y \<noteq> x \<and> y \<notin> set acc) ys" for ys
      by (intro filter_cong) auto
    with False Cons show ?thesis by (simp add: eq)
  qed
qed

lemma newSet_firstSeen: "newSet [] xs = firstSeen xs"
  by (simp add: newSet_firstSeen_acc)

lemma map_of_setProp [simp]:
  "map_of (setProp m k v) k' = (if k' = k then Some v else map_of m k')"
  by (induction m k v rule: setProp.induct) auto









subsection \<open>Merging the schemas of one property\<close>


lemma set_firstSeenValues [simp]: "set (firstSeenValues xs) = set xs"
proof (induction xs)
  case Nil
  then show ?case by simp
next
  case (Cons x xs)
  then show ?case by (auto simp: sameValueZero_def)
qed






















lemma stringsOf_append [simp]: "stringsOf (xs @ ys) = stringsOf xs @ stringsOf ys"
  by (induction xs rule: stringsOf.induct) auto

lemma filter_isString: "filter isString r = map JStr (stringsOf r)"
  by (induction r rule: stringsOf.induct) auto

lemma keys_list_setProp:
  "map fst (setProp m k v) = (if k \<in> set (map fst m) then map fst m else map fst m @ [k])"
  by (induction m k v rule: setProp.induct) auto

lemma countOf_countRequired:
  "countOf (countRequired rc j) k = countOf rc k + count_list (stringsOf [j]) k"
  by (cases j) (auto simp: countRequired_def countOf_def)

lemma keys_countRequired:
  "map fst (countRequired rc j) = newSet (map fst rc) (stringsOf [j])"
  by (cases j) (auto simp: countRequired_def keys_list_setProp)

lemma newSet_append: "newSet acc (xs @ ys) = newSet (newSet acc xs) ys"
  by (induction xs arbitrary: acc) auto

lemma stringsOf_snoc: "stringsOf (js @ [j]) = stringsOf js @ stringsOf [j]"
  by simp

lemma countOf_foldl:
  "countOf (foldl countRequired rc js) k = countOf rc k + count_list (stringsOf js) k"
proof (induction js rule: rev_induct)
  case Nil
  then show ?case by simp
next
  case (snoc j js)
  then show ?case
    by (simp only: foldl_append foldl_Cons foldl_Nil countOf_countRequired stringsOf_snoc
        count_list_append)
qed

lemma keys_foldl:
  "map fst (foldl countRequired rc js) = newSet (map fst rc) (stringsOf js)"
proof (induction js rule: rev_induct)
  case Nil
  then show ?case by simp
next
  case (snoc j js)
  then show ?case
    by (simp only: foldl_append foldl_Cons foldl_Nil keys_countRequired stringsOf_snoc
        newSet_append)
qed

lemma mergeVariant_counts:
  "requiredCounts (mergeVariant st e) =
     (if definesObjectProperties e then foldl countRequired (requiredCounts st) (requiredArray e)
      else requiredCounts st)"
  "objectVariants (mergeVariant st e) =
     (if definesObjectProperties e then objectVariants st + 1 else objectVariants st)"
  by (auto simp: mergeVariant_def definesObjectProperties_def requiredArray_def Let_def)

lemma foldl_mergeVariant_counts:
  "requiredCounts (foldl mergeVariant st vs) =
     foldl countRequired (requiredCounts st)
       (concat (map requiredArray (filter definesObjectProperties vs))) \<and>
   objectVariants (foldl mergeVariant st vs) =
     objectVariants st + length (filter definesObjectProperties vs)"
proof (induction vs arbitrary: st)
  case Nil
  then show ?case by simp
next
  case (Cons e vs)
  show ?case
    by (simp add: Cons.IH mergeVariant_counts)
qed

lemma stringsOf_concat:
  "stringsOf (concat (map requiredArray es)) = concat (map requiredNames es)"
  by (induction es) (auto simp: requiredNames_def requiredArray_def)

lemma count_list_distinct: "distinct xs \<Longrightarrow> count_list xs k = (if k \<in> set xs then 1 else 0)"
  by (induction xs) auto

lemma count_concat_distinct:
  "\<forall>e \<in> set es. distinct (f e) \<Longrightarrow>
   count_list (concat (map f es)) k = length (filter (\<lambda>e. k \<in> set (f e)) es)"
  by (induction es) (auto simp: count_list_distinct)

lemma length_filter_eq: "(length (filter P xs) = length xs) = (\<forall>x \<in> set xs. P x)"
proof (induction xs)
  case Nil
  then show ?case by simp
next
  case (Cons x xs)
  have "length (filter P xs) \<noteq> Suc (length xs)"
    using length_filter_le [of P xs] by arith
  with Cons show ?case by auto
qed

lemma filter_by_count:
  assumes "distinct (map fst rc)"
  shows "map (\<lambda>(key, count). JStr key) (filter (\<lambda>(key, count). count = n) rc) =
         map JStr (filter (\<lambda>k. countOf rc k = n) (map fst rc))"
proof -
  have "\<And>k c. (k, c) \<in> set rc \<Longrightarrow> countOf rc k = c"
    using assms by (simp add: countOf_def)
  then have "filter (\<lambda>(key, count). count = n) rc = filter (\<lambda>kc. countOf rc (fst kc) = n) rc"
    by (intro filter_cong) auto
  then show ?thesis
    by (simp add: filter_map comp_def case_prod_unfold)
qed

lemma flatten_required_value:
  fixes schema variants
  defines "base \<equiv> (case asArray (getProp schema ''required'') of
                     Some r \<Rightarrow> stringsOf r | None \<Rightarrow> [])"
  defines "objs \<equiv> filter definesObjectProperties variants"
  defines "names \<equiv> concat (map requiredNames objs)"
  defines "counted \<equiv> filter (\<lambda>k. count_list names k = length objs) (firstSeen names)"
  defines "req \<equiv> (if base \<noteq> [] then base else counted)"
  shows "map_of (ownEntries (flattenUnionSchema schema variants)) ''required'' =
           (if req = [] then None else Some (JArr (map JStr req)))"
proof -
  let ?st = "foldl mergeVariant
               \<lparr>mergedProperties = [], mergedPrototype = JInherited ''__proto__'',
                 requiredCounts = [], objectVariants = 0\<rparr> variants"
  have rc: "requiredCounts ?st = foldl countRequired [] (concat (map requiredArray objs))"
    and ov: "objectVariants ?st = length objs"
    using foldl_mergeVariant_counts
            [of "\<lparr>mergedProperties = [], mergedPrototype = JInherited ''__proto__'',
                 requiredCounts = [], objectVariants = 0\<rparr>" variants]
    by (simp_all add: objs_def)
  have keys: "map fst (requiredCounts ?st) = firstSeen names"
    by (simp add: rc keys_foldl stringsOf_concat newSet_firstSeen names_def)
  have cnt: "countOf (requiredCounts ?st) k = count_list names k" for k
  proof -
    have "countOf [] k = 0" by (simp add: countOf_def)
    then show ?thesis
      by (simp add: rc countOf_foldl stringsOf_concat names_def)
  qed
  have dist: "distinct (map fst (requiredCounts ?st))"
    by (simp add: keys)
  have fc: "map (\<lambda>(key, count). JStr key)
              (filter (\<lambda>(key, count). count = length objs) (requiredCounts ?st)) =
            map JStr counted"
    by (simp add: filter_by_count [OF dist] keys cnt counted_def)
  have empty: "objs = [] \<Longrightarrow> counted = []"
    by (simp add: counted_def names_def)
  have base: "map_option (filter isString) (asArray (getProp schema ''required'')) =
                (case asArray (getProp schema ''required'') of
                   Some r \<Rightarrow> Some (map JStr (stringsOf r)) | None \<Rightarrow> None)"
    by (simp add: filter_isString split: option.splits)
  show ?thesis
    unfolding flattenUnionSchema_def Let_def base ov fc
    using empty
    by (auto simp: req_def base_def split: option.splits)
qed

lemma count_all_iff:
  assumes "\<forall>e \<in> set objs. distinct (requiredNames e)"
  shows "(count_list (concat (map requiredNames objs)) k = length objs) =
         (\<forall>e \<in> set objs. k \<in> set (requiredNames e))"
  by (simp add: count_concat_distinct [OF assms] length_filter_eq)

lemma getProp_map_of:
  "getProp v k = (case map_of (ownEntries v) k of Some x \<Rightarrow> x | None \<Rightarrow> JUndefined)"
  by (simp add: getProp_def)

text \<open>
  C4 (amended). In the object that the flattening of a union schema hands to the scrubbing
  pass: if the union itself has a top-level \<open>required\<close> array with at least one string
  entry, \<open>required\<close> is the list of its string entries in order (the array itself, kept
  verbatim, when it is not empty and all its entries are strings). Otherwise (no such array,
  an empty one, or one without a string entry), and provided no alternative repeats a name
  in its own \<open>required\<close> list, \<open>required\<close> lists, in first-seen order, exactly the
  names that every alternative defining object properties lists as required; the key is
  left out when there is no such name (also when no alternative defines object properties).
  A union schema that is not caught by the first rule of \<open>normalizeToolParameters\<close> gets
  that object, scrubbed, as its parameters.
\<close>

theorem flattened_required_rule:
  fixes schema :: json and variants :: "json list"
  defines "base \<equiv> (case asArray (getProp schema ''required'') of
                     Some r \<Rightarrow> stringsOf r | None \<Rightarrow> [])"
  defines "objs \<equiv> filter definesObjectProperties variants"
  defines "common \<equiv> filter (\<lambda>k. \<forall>e \<in> set objs. k \<in> set (requiredNames e))
                       (firstSeen (concat (map requiredNames objs)))"
  defines "flat \<equiv> flattenUnionSchema schema variants"
  shows
    "(base \<noteq> [] \<longrightarrow> getProp flat ''required'' = JArr (map JStr base)) \<and>
     (\<forall>r. asArray (getProp schema ''required'') = Some r \<and> r \<noteq> [] \<and> (\<forall>x \<in> set r. isString x)
          \<longrightarrow> getProp flat ''required'' = getProp schema ''required'') \<and>
     (base = [] \<and> (\<forall>e \<in> set objs. distinct (requiredNames e)) \<longrightarrow>
        (if common = [] then \<not> hasProp flat ''required''
         else getProp flat ''required'' = JArr (map JStr common))) \<and>
     (\<forall>clean tool. isObject (parameters tool) \<and> unionVariants (parameters tool) = Some variants \<and>
        \<not> (hasProp (parameters tool) ''type'' \<and> hasProp (parameters tool) ''properties'' \<and>
           asArray (getProp (parameters tool) ''anyOf'') = None) \<longrightarrow>
        parameters (normalizeToolParameters clean (tool :: 'e AgentTool)) =
          clean (flattenUnionSchema (parameters tool) variants))"
proof -
  define names where "names = concat (map requiredNames objs)"
  define counted where "counted = filter (\<lambda>k. count_list names k = length objs) (firstSeen names)"
  have v: "map_of (ownEntries flat) ''required'' =
             (if (if base \<noteq> [] then base else counted) = [] then None
              else Some (JArr (map JStr (if base \<noteq> [] then base else counted))))"
    unfolding flat_def base_def counted_def names_def objs_def
    by (rule flatten_required_value)
  have 1: "base \<noteq> [] \<longrightarrow> getProp flat ''required'' = JArr (map JStr base)"
    by (simp add: getProp_map_of v)
  have 2: "\<forall>r. asArray (getProp schema ''required'') = Some r \<and> r \<noteq> [] \<and> (\<forall>x \<in> set r. isString x)
          \<longrightarrow> getProp flat ''required'' = getProp schema ''required''"
  proof (intro allI impI, elim conjE)
    fix r
    assume r: "asArray (getProp schema ''required'') = Some r" "r \<noteq> []" "\<forall>x \<in> set r. isString x"
    from r(3) have "filter isString r = r" by (simp add: filter_id_conv)
    then have m: "map JStr (stringsOf r) = r" by (simp add: filter_isString)
    with r(2) have "stringsOf r \<noteq> []" by auto
    with r(1) have b: "base \<noteq> []" "base = stringsOf r" by (simp_all add: base_def)
    from r(1) have "getProp schema ''required'' = JArr r"
      by (cases "getProp schema ''required''") auto
    with 1 b m show "getProp flat ''required'' = getProp schema ''required''" by simp
  qed
  have 3: "base = [] \<and> (\<forall>e \<in> set objs. distinct (requiredNames e)) \<longrightarrow>
        (if common = [] then \<not> hasProp flat ''required''
         else getProp flat ''required'' = JArr (map JStr common))"
  proof (intro impI, elim conjE)
    assume b: "base = []" and d: "\<forall>e \<in> set objs. distinct (requiredNames e)"
    have "counted = common"
      unfolding counted_def common_def names_def
      by (simp add: count_all_iff [OF d])
    with b v show "if common = [] then \<not> hasProp flat ''required''
         else getProp flat ''required'' = JArr (map JStr common)"
      by (simp add: getProp_map_of hasProp_def)
  qed
  have 4: "\<forall>clean tool. isObject (parameters tool) \<and> unionVariants (parameters tool) = Some variants \<and>
        \<not> (hasProp (parameters tool) ''type'' \<and> hasProp (parameters tool) ''properties'' \<and>
           asArray (getProp (parameters tool) ''anyOf'') = None) \<longrightarrow>
        parameters (normalizeToolParameters clean (tool :: 'e AgentTool)) =
          clean (flattenUnionSchema (parameters tool) variants)"
    by (auto simp: normalizeToolParameters_def Let_def unionVariants_def split: option.splits)
  from 1 2 3 4 show ?thesis
    by (intro conjI) assumption+
qed

theorem flattened_required_rule_witness:
  "getProp
     (flattenUnionSchema
        (JObj [(''anyOf'', JArr
          [JObj [(''properties'', JObj [(''a'', JObj []), (''b'', JObj [])]),
                 (''required'', JArr [JStr ''a'', JStr ''b''])],
           JObj [(''properties'', JObj [(''a'', JObj [])]),
                 (''required'', JArr [JStr ''a''])]])])
        [JObj [(''properties'', JObj [(''a'', JObj []), (''b'', JObj [])]),
               (''required'', JArr [JStr ''a'', JStr ''b''])],
         JObj [(''properties'', JObj [(''a'', JObj [])]),
               (''required'', JArr [JStr ''a''])]]) ''required'' =
   JArr [JStr ''a'']"
proof -
  let ?A = "JObj [(''properties'', JObj [(''a'', JObj []), (''b'', JObj [])]),
                  (''required'', JArr [JStr ''a'', JStr ''b''])]"
  let ?B = "JObj [(''properties'', JObj [(''a'', JObj [])]), (''required'', JArr [JStr ''a''])]"
  let ?S = "JObj [(''anyOf'', JArr [?A, ?B])]"
  have o: "filter definesObjectProperties [?A, ?B] = [?A, ?B]"
    by (simp add: definesObjectProperties_def isObject_def getProp_def)
  have ra: "requiredNames ?A = [''a'', ''b'']" and rb: "requiredNames ?B = [''a'']"
    by (simp_all add: requiredNames_def getProp_def)
  have h: "(case asArray (getProp ?S ''required'') of Some r \<Rightarrow> stringsOf r | None \<Rightarrow> []) = [] \<and>
           (\<forall>e \<in> set (filter definesObjectProperties [?A, ?B]). distinct (requiredNames e))"
    unfolding o by (simp add: ra rb getProp_def)
  note r = flattened_required_rule [of ?S "[?A, ?B]", THEN conjunct2, THEN conjunct2,
      THEN conjunct1, THEN mp, OF h]
  show ?thesis
    using r unfolding o by (simp add: ra rb)
qed

text \<open>
  C4, as stated, fails. A union that declares an empty top-level \<open>required\<close> list does not
  keep it: the names common to the alternatives are listed instead. And an alternative that
  repeats a name in its \<open>required\<close> list is counted twice, so that with two alternatives
  the name is listed although the other alternative does not require it.
\<close>

theorem required_verbatim_counterexample:
  "asArray (getProp (JObj [(''anyOf'', JArr [JObj [(''properties'', JObj [(''a'', JObj [])]),
                                                 (''required'', JArr [JStr ''a''])]]),
                          (''required'', JArr [])]) ''required'') = Some [] \<and>
   getProp
     (flattenUnionSchema
        (JObj [(''anyOf'', JArr [JObj [(''properties'', JObj [(''a'', JObj [])]),
                                        (''required'', JArr [JStr ''a''])]]),
               (''required'', JArr [])])
        [JObj [(''properties'', JObj [(''a'', JObj [])]), (''required'', JArr [JStr ''a''])]])
     ''required'' = JArr [JStr ''a''] \<and>
   requiredNames (JObj [(''properties'', JObj [(''b'', JObj [])])]) = [] \<and>
   getProp
     (flattenUnionSchema
        (JObj [(''anyOf'', JArr
          [JObj [(''properties'', JObj [(''a'', JObj [])]),
                 (''required'', JArr [JStr ''a'', JStr ''a''])],
           JObj [(''properties'', JObj [(''b'', JObj [])])]])])
        [JObj [(''properties'', JObj [(''a'', JObj [])]),
               (''required'', JArr [JStr ''a'', JStr ''a''])],
         JObj [(''properties'', JObj [(''b'', JObj [])])]])
     ''required'' = JArr [JStr ''a'']"
  by (simp add: flattenUnionSchema_def mergeVariant_def mergeProperty_def countRequired_def
      requiredNames_def isObject_def getProp_def hasProp_def Let_def)

section \<open>Facts about the correction of read results\<close>

lemma startsWith_append: "startsWith t p = (\<exists>u. t = p @ u)"
proof
  assume "startsWith t p"
  then have "t = p @ drop (length p) t"
    by (metis append_take_drop_id startsWith_def)
  then show "\<exists>u. t = p @ u" ..
next
  assume "\<exists>u. t = p @ u"
  then show "startsWith t p" by (auto simp: startsWith_def)
qed

lemma endsWith_append: "endsWith t p = (\<exists>u. t = u @ p)"
proof
  assume e: "endsWith t p"
  then have "t = take (length t - length p) t @ p"
    by (metis append_take_drop_id endsWith_def)
  then show "\<exists>u. t = u @ p" ..
next
  assume "\<exists>u. t = u @ p"
  then show "endsWith t p" by (auto simp: endsWith_def)
qed

lemma rewriteReadImageHeader_cases:
  "rewriteReadImageHeader t s =
     (if (\<exists>u. t = ''Read image file ['' @ u) \<and> (\<exists>u. t = u @ '']'')
      then ''Read image file ['' @ s @ '']'' else t)"
  unfolding rewriteReadImageHeader_def startsWith_append endsWith_append ..

lemma rewriteBlock_cases:
  "rewriteBlock s =
     (\<lambda>b. case b of
        TextContent t \<Rightarrow>
          TextContent (if (\<exists>u. t = ''Read image file ['' @ u) \<and> (\<exists>u. t = u @ '']'')
                       then ''Read image file ['' @ s @ '']'' else t)
      | ImageContent d' m' \<Rightarrow> ImageContent d' (JStr s)
      | OtherContent j \<Rightarrow> OtherContent j)"
proof
  fix b
  show "rewriteBlock s b =
     (case b of
        TextContent t \<Rightarrow>
          TextContent (if (\<exists>u. t = ''Read image file ['' @ u) \<and> (\<exists>u. t = u @ '']'')
                       then ''Read image file ['' @ s @ '']'' else t)
      | ImageContent d' m' \<Rightarrow> ImageContent d' (JStr s)
      | OtherContent j \<Rightarrow> OtherContent j)"
    by (cases b) (simp_all only: rewriteBlock.simps ToolContentBlock.case
        rewriteReadImageHeader_cases)
qed

lemma sniff_head:
  "trim d \<noteq> [] \<Longrightarrow>
   sniffMimeFromBase64 detect d =
     (let n = min 256 (length (trim d)) - min 256 (length (trim d)) mod 4
      in if n < 8 then None else detect (take n (trim d)))"
  by (simp add: sniffMimeFromBase64_def Let_def)

lemma normalizeReadImageResult_no_image:
  "find isImage (content r) = None \<Longrightarrow> normalizeReadImageResult detect r fp = Inr r"
  by (simp add: normalizeReadImageResult_def)

text \<open>
  C5 (amended). Let the first well-formed image block of a read result (type \<open>image\<close>,
  \<open>data\<close> and \<open>mimeType\<close> strings) have the payload \<open>d\<close> and the declared type \<open>m\<close>.
  The text that is sniffed is the first \<open>n\<close> characters of the trimmed payload, \<open>n\<close>
  being at most 256 and a multiple of 4, and the sniffed type is inconclusive when
  \<open>n < 8\<close> or the detector finds nothing. If the payload is empty or white space the call
  fails, whatever the detector is (it is not consulted). Else, if the sniffed type is
  inconclusive, the result is returned untouched; if it is not an image type, the call
  fails; if it equals \<open>m\<close>, the result is returned unchanged; and if it is an image type
  other than \<open>m\<close>, the result is returned with its content rewritten block by block:
  every block of type \<open>image\<close>, well-formed or not, gets the sniffed type as its
  \<open>mimeType\<close>; every text block whose text starts with \<open>Read image file [\<close> and ends
  with \<open>]\<close>, whatever stands in between, becomes \<open>Read image file [sniffed-type]\<close>; every
  other text block and every other block stays as it is. So the header
  \<open>Read image file [m]\<close> of the declared type is rewritten, and a text without that
  beginning or without that end is not.
\<close>

theorem normalizeReadImageResult_rule:
  fixes r :: AgentToolResult and detect :: "string \<Rightarrow> string option"
    and fp d m :: string
  defines "n \<equiv> min 256 (length (trim d)) - min 256 (length (trim d)) mod 4"
  defines "sniffed \<equiv> (if n < 8 then None else detect (take n (trim d)))"
  defines "out \<equiv> normalizeReadImageResult detect r fp"
  assumes f: "find isImage (content r) = Some (ImageContent (JStr d) (JStr m))"
  shows
    "n \<le> 256 \<and> n mod 4 = 0 \<and> length (take n (trim d)) = n \<and>
     (trim d = [] \<longrightarrow>
        (\<forall>other. normalizeReadImageResult other r fp = Inl (ImagePayloadEmpty fp))) \<and>
     (trim d \<noteq> [] \<and> (sniffed = None \<or> sniffed = Some []) \<longrightarrow> out = Inr r) \<and>
     (\<forall>s. trim d \<noteq> [] \<and> sniffed = Some s \<and> s \<noteq> [] \<and> \<not> startsWith s ''image/'' \<longrightarrow>
        out = Inl (NotAnImage s m fp)) \<and>
     (\<forall>s. trim d \<noteq> [] \<and> sniffed = Some s \<and> startsWith s ''image/'' \<and> s \<noteq> m \<longrightarrow>
        out =
          Inr (r\<lparr>content :=
                   map (\<lambda>b. case b of
                          TextContent t \<Rightarrow>
                            TextContent
                              (if (\<exists>u. t = ''Read image file ['' @ u) \<and> (\<exists>u. t = u @ '']'')
                               then ''Read image file ['' @ s @ '']'' else t)
                        | ImageContent d' m' \<Rightarrow> ImageContent d' (JStr s)
                        | OtherContent j \<Rightarrow> OtherContent j)
                     (content r)\<rparr>)) \<and>
     (\<forall>s. trim d \<noteq> [] \<and> sniffed = Some s \<and> startsWith s ''image/'' \<and> s = m \<longrightarrow>
        out = Inr r) \<and>
     (\<forall>s. rewriteReadImageHeader (''Read image file ['' @ m @ '']'') s =
            ''Read image file ['' @ s @ '']'') \<and>
     (\<forall>t s. \<not> startsWith t ''Read image file ['' \<or> \<not> endsWith t '']'' \<longrightarrow>
        rewriteReadImageHeader t s = t)"
proof -
  have a: "n \<le> 256" by (simp add: n_def)
  have b: "n mod 4 = 0" unfolding n_def by (simp add: minus_mod_eq_mult_div)
  have "n \<le> length (trim d)" by (simp add: n_def)
  then have c: "length (take n (trim d)) = n" by simp
  have e: "trim d = [] \<longrightarrow>
         (\<forall>other. normalizeReadImageResult other r fp = Inl (ImagePayloadEmpty fp))"
    by (simp add: normalizeReadImageResult_def f)
  have sn: "sniffMimeFromBase64 detect d = sniffed" if "trim d \<noteq> []"
    by (simp only: sniff_head [OF that] sniffed_def n_def Let_def)
  have g: "trim d \<noteq> [] \<and> (sniffed = None \<or> sniffed = Some []) \<longrightarrow> out = Inr r"
    by (auto simp: out_def normalizeReadImageResult_def f sn)
  have h: "\<forall>s. trim d \<noteq> [] \<and> sniffed = Some s \<and> s \<noteq> [] \<and> \<not> startsWith s ''image/'' \<longrightarrow>
         out = Inl (NotAnImage s m fp)"
    by (auto simp: out_def normalizeReadImageResult_def f sn)
  have i1: "trim d \<noteq> [] \<and> sniffed = Some s \<and> startsWith s ''image/'' \<and> s \<noteq> m \<longrightarrow>
         out = Inr (r\<lparr>content := map (rewriteBlock s) (content r)\<rparr>)" for s
    by (auto simp: out_def normalizeReadImageResult_def f sn startsWith_def)
  have i: "\<forall>s. trim d \<noteq> [] \<and> sniffed = Some s \<and> startsWith s ''image/'' \<and> s \<noteq> m \<longrightarrow>
        out =
          Inr (r\<lparr>content :=
                   map (\<lambda>b. case b of
                          TextContent t \<Rightarrow>
                            TextContent
                              (if (\<exists>u. t = ''Read image file ['' @ u) \<and> (\<exists>u. t = u @ '']'')
                               then ''Read image file ['' @ s @ '']'' else t)
                        | ImageContent d' m' \<Rightarrow> ImageContent d' (JStr s)
                        | OtherContent j \<Rightarrow> OtherContent j)
                     (content r)\<rparr>)"
    using i1 by (simp only: rewriteBlock_cases) blast
  have j: "\<forall>s. trim d \<noteq> [] \<and> sniffed = Some s \<and> startsWith s ''image/'' \<and> s = m \<longrightarrow>
         out = Inr r"
    by (auto simp: out_def normalizeReadImageResult_def f sn startsWith_def)
  have k: "\<forall>s. rewriteReadImageHeader (''Read image file ['' @ m @ '']'') s =
            ''Read image file ['' @ s @ '']''"
    by (simp add: rewriteReadImageHeader_def startsWith_def endsWith_def)
  have l: "\<forall>t s. \<not> startsWith t ''Read image file ['' \<or> \<not> endsWith t '']'' \<longrightarrow>
        rewriteReadImageHeader t s = t"
    unfolding rewriteReadImageHeader_def by (intro allI impI) (rule if_not_P, erule disjE, (rule notI, erule conjE, erule (1) notE)+)
  from a b c e g h i j k l show ?thesis
    by (intro conjI) assumption+
qed

theorem normalizeReadImageResult_rule_witness:
  "normalizeReadImageResult pngSniffer
     \<lparr>content = [TextContent ''Read image file [image/jpeg]'',
                 ImageContent (JStr ''iVBORw0KGgoAAAANSUhEUgAAAAEAAAABCA=='') (JStr ''image/jpeg''),
                 TextContent ''Read image file'',
                 ImageContent (JStr ''AAAA'') JUndefined],
      details = JNull\<rparr> ''/tmp/a.jpg'' =
   Inr \<lparr>content = [TextContent ''Read image file [image/png]'',
                   ImageContent (JStr ''iVBORw0KGgoAAAANSUhEUgAAAAEAAAABCA=='') (JStr ''image/png''),
                   TextContent ''Read image file'',
                   ImageContent (JStr ''AAAA'') (JStr ''image/png'')],
        details = JNull\<rparr>"
proof -
  let ?d = "''iVBORw0KGgoAAAANSUhEUgAAAAEAAAABCA==''"
  let ?r = "\<lparr>content = [TextContent ''Read image file [image/jpeg]'',
                        ImageContent (JStr ?d) (JStr ''image/jpeg''),
                        TextContent ''Read image file'',
                        ImageContent (JStr ''AAAA'') JUndefined], details = JNull\<rparr>"
  have f: "find isImage (content ?r) = Some (ImageContent (JStr ?d) (JStr ''image/jpeg''))"
    by simp
  have t: "trim ?d = ?d"
    by (simp add: trim_def isWhiteSpace_def)
  have p1: "\<exists>u. ''Read image file [image/jpeg]'' = ''Read image file ['' @ u"
    by simp
  have p2: "\<exists>u. ''Read image file [image/jpeg]'' = u @ '']''"
    by (rule exI [of _ "''Read image file [image/jpeg''"]) simp
  have p3: "\<not> (\<exists>u. ''Read image file'' = ''Read image file ['' @ u)"
    by simp
  note r = normalizeReadImageResult_rule [where r = ?r and d = ?d and m = "''image/jpeg''"
      and detect = pngSniffer and fp = "''/tmp/a.jpg''",
      OF f, THEN conjunct2, THEN conjunct2, THEN conjunct2, THEN conjunct2, THEN conjunct2,
      THEN conjunct2, THEN conjunct1, THEN spec, of "''image/png''", THEN mp]
  have "normalizeReadImageResult pngSniffer ?r ''/tmp/a.jpg'' =
          Inr (?r\<lparr>content :=
                   map (\<lambda>b. case b of
                          TextContent t \<Rightarrow>
                            TextContent
                              (if (\<exists>u. t = ''Read image file ['' @ u) \<and> (\<exists>u. t = u @ '']'')
                               then ''Read image file ['' @ ''image/png'' @ '']'' else t)
                        | ImageContent d' m' \<Rightarrow> ImageContent d' (JStr ''image/png'')
                        | OtherContent j \<Rightarrow> OtherContent j)
                     (content ?r)\<rparr>)"
    by (rule r) (simp add: t pngSniffer_def startsWith_def)
  also have "\<dots> = Inr \<lparr>content = [TextContent ''Read image file [image/png]'',
                   ImageContent (JStr ?d) (JStr ''image/png''),
                   TextContent ''Read image file'',
                   ImageContent (JStr ''AAAA'') (JStr ''image/png'')],
        details = JNull\<rparr>"
    using p1 p2 p3 by simp
  finally show ?thesis .
qed

text \<open>
  C5, as stated, fails. The declared type is \<open>image/jpeg\<close> and the payload is a PNG. The
  text block \<open>Read image file [a.png] failed, see [log]\<close> is not the header
  \<open>Read image file [image/jpeg]\<close> of the declared type, nor a header of any type with
  nothing after it, yet it is rewritten, and what it said is lost.
\<close>

theorem prefix_and_bracket_text_counterexample:
  "normalizeReadImageResult pngSniffer
     \<lparr>content = [TextContent ''Read image file [a.png] failed, see [log]'',
                 ImageContent (JStr ''iVBORw0KGgoAAAANSUhEUgAAAAEAAAABCA=='') (JStr ''image/jpeg'')],
      details = JNull\<rparr> ''/tmp/a.jpg'' =
   Inr \<lparr>content = [TextContent ''Read image file [image/png]'',
                   ImageContent (JStr ''iVBORw0KGgoAAAANSUhEUgAAAAEAAAABCA=='') (JStr ''image/png'')],
        details = JNull\<rparr> \<and>
   ''Read image file [a.png] failed, see [log]'' \<noteq> ''Read image file [image/jpeg]''"
  by (simp add: normalizeReadImageResult_def sniffMimeFromBase64_def trim_def isWhiteSpace_def
      pngSniffer_def startsWith_def endsWith_def rewriteReadImageHeader_def Let_def)

section \<open>Facts about cancellation\<close>

lemma aborted_combine:
  "(case combineAbortSignals hasAny F s (Some a) of Some c \<Rightarrow> aborted F c | None \<Rightarrow> False) =
     ((case s of Some x \<Rightarrow> aborted F x | None \<Rightarrow> False) \<or> aborted F a)"
  by (cases s) (auto simp: combineAbortSignals_def)

lemma combine_later:
  assumes "\<not> (case s of Some x \<Rightarrow> aborted F x | None \<Rightarrow> False)" and "\<not> aborted F a"
  shows "\<exists>c. combineAbortSignals hasAny F s (Some a) = Some c \<and>
             (\<forall>F'. aborted F' c = ((case s of Some x \<Rightarrow> aborted F' x | None \<Rightarrow> False) \<or> aborted F' a))"
  using assms by (cases s) (auto simp: combineAbortSignals_def)

text \<open>
  C6. Let a tool with an \<open>execute\<close> be wrapped with the assembly-level signal \<open>a\<close>, and
  let it be called with the per-call signal \<open>s\<close> (or none) in the world \<open>w\<close>. The name
  and the schema are unchanged. If \<open>s\<close> or \<open>a\<close> is aborted at the time of the call, the
  call fails with \<open>AbortError\<close> and leaves the world as it is, whatever the underlying
  \<open>execute\<close> is: it is not invoked. Otherwise the underlying \<open>execute\<close> is invoked with
  the same call id and arguments and with a combined signal that, in every later state of
  the cancellation sources, is aborted exactly when \<open>s\<close> or \<open>a\<close> is.
\<close>

theorem wrapToolWithAbortSignal_rule:
  fixes tool :: "'e AgentTool" and w :: "'e world" and s :: "AbortSignal option"
    and a :: AbortSignal and hasAny :: bool
  defines "wrapped \<equiv> wrapToolWithAbortSignal hasAny tool (Some a)"
  defines "perCall \<equiv> (\<lambda>F. case s of Some x \<Rightarrow> aborted F x | None \<Rightarrow> False)"
  assumes ex: "execute tool = Some exec"
  shows
    "name wrapped = name tool \<and> parameters wrapped = parameters tool \<and>
     (perCall (abortedSources w) \<or> aborted (abortedSources w) a \<longrightarrow>
        callExecute wrapped i p s w = (Inl AbortError, w)) \<and>
     (\<not> perCall (abortedSources w) \<and> \<not> aborted (abortedSources w) a \<longrightarrow>
        (\<exists>c. callExecute wrapped i p s w = exec i p (Some c) w \<and>
             (\<forall>F'. aborted F' c = (perCall F' \<or> aborted F' a))))"
proof -
  have w: "wrapped = tool\<lparr>execute := Some (\<lambda>toolCallId params signal w.
                 (let combined = combineAbortSignals hasAny (abortedSources w)
                                   signal (Some a)
                  in if (case combined of
                           Some c \<Rightarrow> aborted (abortedSources w) c
                         | None \<Rightarrow> False)
                     then (Inl AbortError, w)
                     else exec toolCallId params combined w))\<rparr>"
    by (simp add: wrapped_def wrapToolWithAbortSignal_def ex)
  have 1: "name wrapped = name tool" and 2: "parameters wrapped = parameters tool"
    by (simp_all add: w)
  have 3: "perCall (abortedSources w) \<or> aborted (abortedSources w) a \<longrightarrow>
        callExecute wrapped i p s w = (Inl AbortError, w)"
    by (simp add: w callExecute_def Let_def aborted_combine perCall_def)
  have 4: "\<not> perCall (abortedSources w) \<and> \<not> aborted (abortedSources w) a \<longrightarrow>
        (\<exists>c. callExecute wrapped i p s w = exec i p (Some c) w \<and>
             (\<forall>F'. aborted F' c = (perCall F' \<or> aborted F' a)))"
  proof (intro impI, elim conjE)
    assume n: "\<not> perCall (abortedSources w)" "\<not> aborted (abortedSources w) a"
    from combine_later [where s = s and F = "abortedSources w" and a = a and hasAny = hasAny] n
    obtain c where c: "combineAbortSignals hasAny (abortedSources w) s (Some a) = Some c"
      "\<forall>F'. aborted F' c = (perCall F' \<or> aborted F' a)"
      by (auto simp: perCall_def)
    from n have "\<not> (case combineAbortSignals hasAny (abortedSources w) s (Some a) of
                     Some c \<Rightarrow> aborted (abortedSources w) c | None \<Rightarrow> False)"
      by (simp add: aborted_combine perCall_def)
    then have "callExecute wrapped i p s w = exec i p (Some c) w"
      by (simp add: w callExecute_def Let_def c(1))
    with c(2) show "\<exists>c. callExecute wrapped i p s w = exec i p (Some c) w \<and>
             (\<forall>F'. aborted F' c = (perCall F' \<or> aborted F' a))"
      by blast
  qed
  from 1 2 3 4 show ?thesis by (intro conjI) assumption+
qed

theorem wrapToolWithAbortSignal_rule_witness:
  "callExecute (wrapToolWithAbortSignal True (markerTool ''exec'') (Some (Source 1)))
     ''call-1'' (JObj []) (Some (Source 2)) \<lparr>abortedSources = {1}, external = False\<rparr> =
     (Inl AbortError, \<lparr>abortedSources = {1}, external = False\<rparr>) \<and>
   callExecute (wrapToolWithAbortSignal True (markerTool ''exec'') (Some (Source 1)))
     ''call-1'' (JObj []) (Some (Source 2)) \<lparr>abortedSources = {2}, external = False\<rparr> =
     (Inl AbortError, \<lparr>abortedSources = {2}, external = False\<rparr>) \<and>
   snd (callExecute (markerTool ''exec'')
     ''call-1'' (JObj []) (Some (Source 2)) \<lparr>abortedSources = {1}, external = False\<rparr>) =
     \<lparr>abortedSources = {1}, external = True\<rparr>"
proof -
  obtain exec where e: "execute (markerTool ''exec'') = Some exec"
    by (simp add: markerTool_def)
  note r = wrapToolWithAbortSignal_rule [OF e, where hasAny = True and a = "Source 1"
      and s = "Some (Source 2)" and i = "''call-1''" and p = "JObj []"]
  have a: "callExecute (wrapToolWithAbortSignal True (markerTool ''exec'') (Some (Source 1)))
     ''call-1'' (JObj []) (Some (Source 2)) \<lparr>abortedSources = {1}, external = False\<rparr> =
     (Inl AbortError, \<lparr>abortedSources = {1}, external = False\<rparr>)"
    by (rule r [where w = "\<lparr>abortedSources = {1}, external = False\<rparr>",
          THEN conjunct2, THEN conjunct2, THEN conjunct1, THEN mp]) simp
  have b: "callExecute (wrapToolWithAbortSignal True (markerTool ''exec'') (Some (Source 1)))
     ''call-1'' (JObj []) (Some (Source 2)) \<lparr>abortedSources = {2}, external = False\<rparr> =
     (Inl AbortError, \<lparr>abortedSources = {2}, external = False\<rparr>)"
    by (rule r [where w = "\<lparr>abortedSources = {2}, external = False\<rparr>",
          THEN conjunct2, THEN conjunct2, THEN conjunct1, THEN mp]) simp
  have c: "snd (callExecute (markerTool ''exec'')
     ''call-1'' (JObj []) (Some (Source 2)) \<lparr>abortedSources = {1}, external = False\<rparr>) =
     \<lparr>abortedSources = {1}, external = True\<rparr>"
    by (simp add: callExecute_def markerTool_def)
  from a b c show ?thesis by (intro conjI)
qed

section \<open>Facts about the assembly\<close>

lemma name_normalizeToolParameters [simp]: "name (normalizeToolParameters clean t) = name t"
  by (simp add: normalizeToolParameters_def Let_def split: option.splits)

lemma name_wrapToolWithAbortSignal [simp]: "name (wrapToolWithAbortSignal h t s) = name t"
  by (simp add: wrapToolWithAbortSignal_def split: option.splits)

lemma name_wrapToolParamNormalization [simp]: "name (wrapToolParamNormalization t) = name t"
  by (simp add: wrapToolParamNormalization_def)

lemma name_wrapSandboxPathGuard [simp]: "name (wrapSandboxPathGuard a t root) = name t"
  by (simp add: wrapSandboxPathGuard_def)

lemma name_createClawdbotReadTool [simp]: "name (createClawdbotReadTool d s t) = name t"
  by (simp add: createClawdbotReadTool_def)

lemma filterToolsByPolicy_mem:
  "t \<in> set (filterToolsByPolicy ts pol) \<longleftrightarrow>
     t \<in> set ts \<and> isToolAllowedByPolicyName (name t) pol"
  by (cases pol) (auto simp: filterToolsByPolicy_def isToolAllowedByPolicyName_def)

lemma survivors:
  assumes "tool \<in> set (createClawdbotCodingTools C options)"
  shows "\<exists>t \<in> set (assembledTools C options).
           name t = name tool \<and>
           isToolAllowedByPolicyName (name t)
             (policy (resolveEffectiveToolPolicy C (config options) (sessionKey options))) \<and>
           isToolAllowedByPolicyName (name t)
             (Option.bind (sandboxInEffect options) sandboxTools) \<and>
           isToolAllowedByPolicyName (name t) (subagentPolicy C options)"
proof -
  let ?eff = "policy (resolveEffectiveToolPolicy C (config options) (sessionKey options))"
  let ?f1 = "filterToolsByPolicy (assembledTools C options) ?eff"
  let ?f2 = "filterToolsByPolicy ?f1 (Option.bind (sandboxInEffect options) sandboxTools)"
  let ?f3 = "filterToolsByPolicy ?f2 (subagentPolicy C options)"
  have e1: "(case ?eff of Some p \<Rightarrow> filterToolsByPolicy (assembledTools C options) (Some p)
             | None \<Rightarrow> assembledTools C options) = ?f1"
    by (simp add: filterToolsByPolicy_def split: option.splits)
  have e2: "(case sandboxInEffect options of Some sb \<Rightarrow> filterToolsByPolicy ?f1 (sandboxTools sb)
             | None \<Rightarrow> ?f1) = ?f2"
    by (simp add: filterToolsByPolicy_def split: option.splits)
  have e3: "(case subagentPolicy C options of Some p \<Rightarrow> filterToolsByPolicy ?f2 (Some p)
             | None \<Rightarrow> ?f2) = ?f3"
    by (simp add: filterToolsByPolicy_def split: option.splits)
  have "name tool \<in> name ` set ?f3"
    using assms
    unfolding createClawdbotCodingTools_def Let_def e1 e2 e3
    by (auto split: option.splits)
  then obtain t where "t \<in> set ?f3" "name t = name tool" by auto
  then show ?thesis
    by (auto simp: filterToolsByPolicy_mem)
qed

text \<open>
  C2 (amended). For every configuration and session key: the agent id is resolved from a
  non-empty session key; the agent's configuration is resolved when there is a configuration
  and a non-empty agent id. If the agent's tools configuration has an allow list or a deny
  list, present as a list whatever its length (an empty list too), the policy returned is
  the agent's and nothing of the global policy is in it; otherwise the policy returned is
  the global one. A tool stays in a list filtered by the returned policy, and in the list
  that \<open>createClawdbotCodingTools\<close> returns, only if the returned policy allows its
  name, whatever the policy of the other level says.
\<close>

theorem resolveEffectiveToolPolicy_rule:
  fixes C :: "('e, 'c) Collaborators" and cfg :: "'c ClawdbotConfig_scheme option"
    and key :: "string option"
  defines "eff \<equiv> resolveEffectiveToolPolicy C cfg key"
  defines "agentCfg \<equiv> (case (cfg, agentId eff) of
                          (Some c, Some a) \<Rightarrow> if a \<noteq> [] then resolveAgentConfig C c a else None
                        | _ \<Rightarrow> None)"
  defines "agentPol \<equiv> Option.bind agentCfg agentTools"
  defines "globalPol \<equiv> map_option toolsPolicy (Option.bind cfg tools)"
  defines "agentDefines \<equiv> (\<exists>t. agentPol = Some t \<and> (allow t \<noteq> None \<or> deny t \<noteq> None))"
  shows
    "agentId eff = (case key of
                      Some k \<Rightarrow> if k \<noteq> [] then Some (resolveAgentIdFromSessionKey C k) else None
                    | None \<Rightarrow> None) \<and>
     (agentDefines \<longrightarrow> policy eff = agentPol) \<and>
     (\<not> agentDefines \<longrightarrow> policy eff = globalPol) \<and>
     (\<forall>ts tool. tool \<in> set (filterToolsByPolicy ts (policy eff)) \<longrightarrow>
        isToolAllowedByPolicyName (name tool) (policy eff)) \<and>
     (\<forall>options tool.
        config options = cfg \<and> sessionKey options = key \<and>
        tool \<in> set (createClawdbotCodingTools C options) \<longrightarrow>
        isToolAllowedByPolicyName (name tool) (policy eff))"
proof -
  have 1: "agentId eff = (case key of
                      Some k \<Rightarrow> if k \<noteq> [] then Some (resolveAgentIdFromSessionKey C k) else None
                    | None \<Rightarrow> None)"
    by (simp add: eff_def resolveEffectiveToolPolicy_def Let_def)
  have p: "policy eff = (if agentDefines then agentPol else globalPol)"
    unfolding agentDefines_def agentPol_def agentCfg_def globalPol_def 1
    by (auto simp: eff_def resolveEffectiveToolPolicy_def Let_def split: option.splits)
  have 2: "agentDefines \<longrightarrow> policy eff = agentPol" and 3: "\<not> agentDefines \<longrightarrow> policy eff = globalPol"
    by (simp_all add: p)
  have 4: "\<forall>ts tool. tool \<in> set (filterToolsByPolicy ts (policy eff)) \<longrightarrow>
        isToolAllowedByPolicyName (name tool) (policy eff)"
    by (simp add: filterToolsByPolicy_mem)
  have 5: "\<forall>options tool.
        config options = cfg \<and> sessionKey options = key \<and>
        tool \<in> set (createClawdbotCodingTools C options) \<longrightarrow>
        isToolAllowedByPolicyName (name tool) (policy eff)"
  proof (intro allI impI, elim conjE)
    fix options :: "'c Options" and tool :: "'e AgentTool"
    assume c: "config options = cfg" and k: "sessionKey options = key"
      and t: "tool \<in> set (createClawdbotCodingTools C options)"
    from survivors [OF t] c k show "isToolAllowedByPolicyName (name tool) (policy eff)"
      by (auto simp: eff_def)
  qed
  from 1 2 3 4 5 show ?thesis by (intro conjI) assumption+
qed

theorem resolveEffectiveToolPolicy_rule_witness:
  "policy (resolveEffectiveToolPolicy agentOverride
     (Some \<lparr>tools = Some \<lparr>toolsPolicy = \<lparr>allow = Some [''write''], deny = Some [''exec'']\<rparr>,
                           applyPatch = None, subagentsTools = None\<rparr>\<rparr>)
     (Some ''agent:main:1'')) =
     Some \<lparr>allow = None, deny = Some [''write'']\<rparr> \<and>
   policy (resolveEffectiveToolPolicy exampleCollaborators
     (Some \<lparr>tools = Some \<lparr>toolsPolicy = \<lparr>allow = Some [''write''], deny = Some [''exec'']\<rparr>,
                           applyPatch = None, subagentsTools = None\<rparr>\<rparr>)
     (Some ''agent:main:1'')) =
     Some \<lparr>allow = Some [''write''], deny = Some [''exec'']\<rparr>"
proof -
  let ?cfg = "Some \<lparr>tools = Some \<lparr>toolsPolicy = \<lparr>allow = Some [''write''], deny = Some [''exec'']\<rparr>,
                           applyPatch = None, subagentsTools = None\<rparr>\<rparr>"
  note a = resolveEffectiveToolPolicy_rule [where C = agentOverride and cfg = ?cfg
      and key = "Some ''agent:main:1''", THEN conjunct2, THEN conjunct1, THEN mp]
  note b = resolveEffectiveToolPolicy_rule [where C = exampleCollaborators and cfg = ?cfg
      and key = "Some ''agent:main:1''", THEN conjunct2, THEN conjunct2, THEN conjunct1, THEN mp]
  have ida: "agentId (resolveEffectiveToolPolicy agentOverride ?cfg (Some ''agent:main:1'')) =
             Some ''main''"
    by (simp add: resolveEffectiveToolPolicy_def agentOverride_def exampleCollaborators_def)
  have idb: "agentId (resolveEffectiveToolPolicy exampleCollaborators ?cfg (Some ''agent:main:1'')) =
             Some ''main''"
    by (simp add: resolveEffectiveToolPolicy_def exampleCollaborators_def)
  have "policy (resolveEffectiveToolPolicy agentOverride ?cfg (Some ''agent:main:1'')) =
     Some \<lparr>allow = None, deny = Some [''write'']\<rparr>"
    by (rule a [THEN trans]) (simp_all add: ida, simp_all add: agentOverride_def exampleCollaborators_def)
  moreover have "policy (resolveEffectiveToolPolicy exampleCollaborators ?cfg (Some ''agent:main:1'')) =
     Some \<lparr>allow = Some [''write''], deny = Some [''exec'']\<rparr>"
    by (rule b [THEN trans]) (simp_all add: idb, simp_all add: exampleCollaborators_def)
  ultimately show ?thesis by (intro conjI)
qed

text \<open>
  C2, as stated, fails. The agent's tools configuration has an empty allow list and an empty
  deny list, so it defines no allow or deny entry, and the global policy denies \<open>exec\<close>.
  The policy returned is the agent's, not the global one, and it allows \<open>exec\<close>.
\<close>

theorem empty_agent_lists_counterexample:
  "resolveAgentConfig emptyAgentLists
     \<lparr>tools = Some \<lparr>toolsPolicy = \<lparr>allow = None, deny = Some [''exec'']\<rparr>,
                      applyPatch = None, subagentsTools = None\<rparr>\<rparr> ''main'' =
     Some \<lparr>agentTools = Some \<lparr>allow = Some [], deny = Some []\<rparr>\<rparr> \<and>
   policy (resolveEffectiveToolPolicy emptyAgentLists
     (Some \<lparr>tools = Some \<lparr>toolsPolicy = \<lparr>allow = None, deny = Some [''exec'']\<rparr>,
                           applyPatch = None, subagentsTools = None\<rparr>\<rparr>)
     (Some ''agent:main:1'')) =
     Some \<lparr>allow = Some [], deny = Some []\<rparr> \<and>
   \<not> isToolAllowedByPolicyName ''exec'' (Some \<lparr>allow = None, deny = Some [''exec'']\<rparr>) \<and>
   isToolAllowedByPolicyName ''exec''
     (policy (resolveEffectiveToolPolicy emptyAgentLists
        (Some \<lparr>tools = Some \<lparr>toolsPolicy = \<lparr>allow = None, deny = Some [''exec'']\<rparr>,
                              applyPatch = None, subagentsTools = None\<rparr>\<rparr>)
        (Some ''agent:main:1'')))"
proof -
  let ?cfg = "\<lparr>tools = Some \<lparr>toolsPolicy = \<lparr>allow = None, deny = Some [''exec'']\<rparr>,
                           applyPatch = None, subagentsTools = None\<rparr>\<rparr>"
  have a: "resolveAgentConfig emptyAgentLists ?cfg ''main'' =
     Some \<lparr>agentTools = Some \<lparr>allow = Some [], deny = Some []\<rparr>\<rparr>"
    by (simp add: emptyAgentLists_def)
  have b: "policy (resolveEffectiveToolPolicy emptyAgentLists (Some ?cfg) (Some ''agent:main:1'')) =
     Some \<lparr>allow = Some [], deny = Some []\<rparr>"
    by (simp add: resolveEffectiveToolPolicy_def emptyAgentLists_def exampleCollaborators_def)
  have c: "\<not> isToolAllowedByPolicyName ''exec'' (Some \<lparr>allow = None, deny = Some [''exec'']\<rparr>)"
    by (simp add: isToolAllowedByPolicyName_def normalizeToolNames_def normalizeToolName_exec)
  have d: "isToolAllowedByPolicyName ''exec'' (Some \<lparr>allow = Some [], deny = Some []\<rparr>)"
    by (simp add: isToolAllowedByPolicyName_def normalizeToolNames_def)
  from d have e: "isToolAllowedByPolicyName ''exec''
     (policy (resolveEffectiveToolPolicy emptyAgentLists (Some ?cfg) (Some ''agent:main:1'')))"
    by (simp only: b)
  from a b c e show ?thesis
    by (intro conjI) assumption+
qed

lemma readOnly_locals:
  assumes "sandbox options = Some sb" and "sandboxEnabled sb"
    and "sandboxWorkspaceDir sb \<noteq> []" and "workspaceAccess sb = ''ro''"
  shows "truthyRoot options = Some (sandboxWorkspaceDir sb)"
    and "allowWorkspaceWrites options = False"
    and "sandboxInEffect options = Some sb"
  using assms
  by (simp_all add: truthyRoot_def sandboxRoot_def sandboxInEffect_def allowWorkspaceWrites_def)

lemma baseToolFor_readOnly:
  assumes "truthyRoot options = Some r"
    and "\<not> isWriteOrEdit (createReadTool C r)"
    and "t \<in> set (baseToolFor C options tool)"
  shows "\<not> isWriteOrEdit t"
  using assms
  by (auto simp: baseToolFor_def isWriteOrEdit_def createSandboxedReadTool_def
      split: if_splits)

lemma assembledTools_readOnly:
  fixes C :: "('e, 'c) Collaborators" and options :: "'c Options"
  assumes sb: "sandbox options = Some sb" "sandboxEnabled sb"
    "sandboxWorkspaceDir sb \<noteq> []" "workspaceAccess sb = ''ro''"
    and rd: "\<not> isWriteOrEdit (createReadTool C (sandboxWorkspaceDir sb))"
    and ex: "\<forall>cwd bg scope. \<not> isWriteOrEdit (createExecTool C cwd bg scope (Some sb))"
    and pr: "\<forall>scope. \<not> isWriteOrEdit (createProcessTool C scope)"
    and pv: "\<forall>t \<in> set (listProviderAgentTools C (config options)). \<not> isWriteOrEdit t"
    and cl: "\<forall>t \<in> set (createClawdbotTools C options (Some sb)). \<not> isWriteOrEdit t"
    and t: "t \<in> set (assembledTools C options)"
  shows "\<not> isWriteOrEdit t"
proof -
  note l = readOnly_locals [OF sb]
  have ap: "applyPatchTool C options = None"
    by (simp add: applyPatchTool_def l)
  from t consider
      (base) tool where "tool \<in> set (codingTools C)" "t \<in> set (baseToolFor C options tool)"
    | (exec) cwd bg scope where "t = createExecTool C cwd bg scope (Some sb)"
    | (process) scope where "t = createProcessTool C scope"
    | (provider) "t \<in> set (listProviderAgentTools C (config options))"
    | (clawdbot) "t \<in> set (createClawdbotTools C options (Some sb))"
    unfolding assembledTools_def Let_def l ap
    by auto
  then show ?thesis
  proof cases
    case base
    then show ?thesis using baseToolFor_readOnly [OF l(1) rd] by blast
  next
    case exec
    then show ?thesis using ex by simp
  next
    case process
    then show ?thesis using pr by simp
  next
    case provider
    then show ?thesis using pv by simp
  next
    case clawdbot
    then show ?thesis using cl by simp
  qed
qed

text \<open>
  Where the workspace directory of the sandbox is not the empty string, a read-only sandbox
  gets no write and no edit tool: for every assembly with an enabled sandbox whose
  workspace directory is not the empty string and whose workspace access mode is \<open>ro\<close>,
  the list that \<open>createClawdbotCodingTools\<close> returns has no tool named \<open>write\<close> or
  \<open>edit\<close>, whatever the global, per-agent, sandbox and subagent policies are, provided
  the collaborators that build the read, exec and process tools and that supply the provider
  and the supplemental tools give no tool of those names.
\<close>

theorem readOnly_sandbox_no_write_edit:
  fixes C :: "('e, 'c) Collaborators" and options :: "'c Options"
  assumes sb: "sandbox options = Some sb" "sandboxEnabled sb"
    "sandboxWorkspaceDir sb \<noteq> []" "workspaceAccess sb = ''ro''"
    and rd: "\<not> isWriteOrEdit (createReadTool C (sandboxWorkspaceDir sb))"
    and ex: "\<forall>cwd bg scope. \<not> isWriteOrEdit (createExecTool C cwd bg scope (Some sb))"
    and pr: "\<forall>scope. \<not> isWriteOrEdit (createProcessTool C scope)"
    and pv: "\<forall>t \<in> set (listProviderAgentTools C (config options)). \<not> isWriteOrEdit t"
    and cl: "\<forall>t \<in> set (createClawdbotTools C options (Some sb)). \<not> isWriteOrEdit t"
  shows "\<forall>tool \<in> set (createClawdbotCodingTools C options).
           name tool \<noteq> ''write'' \<and> name tool \<noteq> ''edit''"
proof
  fix tool
  assume "tool \<in> set (createClawdbotCodingTools C options)"
  from survivors [OF this] obtain t
    where t: "t \<in> set (assembledTools C options)" "name t = name tool"
    by blast
  from assembledTools_readOnly [OF sb rd ex pr pv cl t(1)] t(2)
  show "name tool \<noteq> ''write'' \<and> name tool \<noteq> ''edit''"
    by (simp add: isWriteOrEdit_def)
qed

lemma names_final:
  "map name (createClawdbotCodingTools C options) =
     map name
       (filterToolsByPolicy
          (filterToolsByPolicy
             (filterToolsByPolicy (assembledTools C options)
                (policy (resolveEffectiveToolPolicy C (config options) (sessionKey options))))
             (Option.bind (sandboxInEffect options) sandboxTools))
          (subagentPolicy C options))"
  by (simp add: createClawdbotCodingTools_def Let_def filterToolsByPolicy_def comp_def
      split: option.splits)

lemma name_markerTool [simp]: "name (markerTool nm) = nm"
  by (simp add: markerTool_def)

lemma example_policies:
  "policy (resolveEffectiveToolPolicy exampleCollaborators (config (readOnlyOptions dir))
             (sessionKey (readOnlyOptions dir))) = None"
  "Option.bind (sandboxInEffect (readOnlyOptions dir)) sandboxTools = None"
  "subagentPolicy exampleCollaborators (readOnlyOptions dir) = None"
  by (simp_all add: resolveEffectiveToolPolicy_def readOnlyOptions_def sandboxInEffect_def
      subagentPolicy_def exampleCollaborators_def)

lemma example_locals:
  "truthyRoot (readOnlyOptions dir) = (if dir \<noteq> [] then Some dir else None)"
  "allowWorkspaceWrites (readOnlyOptions dir) = False"
  "applyPatchTool exampleCollaborators (readOnlyOptions dir) = None"
  by (simp_all add: truthyRoot_def sandboxRoot_def sandboxInEffect_def allowWorkspaceWrites_def
      applyPatchTool_def applyPatchEnabled_def applyPatchConfig_def readOnlyOptions_def)

lemma example_collaborators [simp]:
  "codingTools exampleCollaborators =
     [markerTool ''read'', markerTool ''bash'', markerTool ''edit'', markerTool ''write'']"
  "readToolName exampleCollaborators = ''read''"
  "createReadTool exampleCollaborators root = markerTool ''read''"
  "createWriteTool exampleCollaborators root = markerTool ''write''"
  "createEditTool exampleCollaborators root = markerTool ''edit''"
  "createExecTool exampleCollaborators cwd bg scope sb = markerTool ''exec''"
  "createProcessTool exampleCollaborators scope = markerTool ''process''"
  "listProviderAgentTools exampleCollaborators c = []"
  "createClawdbotTools exampleCollaborators options sb = []"
  by (simp_all add: exampleCollaborators_def)

theorem readOnly_sandbox_no_write_edit_witness:
  "map name (createClawdbotCodingTools exampleCollaborators (readOnlyOptions ''/ws'')) =
     [''read'', ''exec'', ''process'']"
proof -
  have eq: "map name (createClawdbotCodingTools exampleCollaborators (readOnlyOptions ''/ws'')) =
     [''read'', ''exec'', ''process'']"
    by (simp add: names_final example_policies filterToolsByPolicy_def assembledTools_def
        baseToolFor_def example_locals createSandboxedReadTool_def Let_def)
  have "\<forall>tool \<in> set (createClawdbotCodingTools exampleCollaborators (readOnlyOptions ''/ws'')).
           name tool \<noteq> ''write'' \<and> name tool \<noteq> ''edit''"
    by (rule readOnly_sandbox_no_write_edit
          [where sb = "\<lparr>sandboxEnabled = True, sandboxWorkspaceDir = ''/ws'',
                          workspaceAccess = ''ro'', sandboxTools = None\<rparr>"])
       (simp_all add: readOnlyOptions_def isWriteOrEdit_def)
  with eq show ?thesis by simp
qed

text \<open>
  C8. The code tests the sandbox root for truth (\<open>if (sandboxRoot)\<close>) where it means
  that there is a sandbox, as the tests on \<open>sandbox\<close> beside it say. So with an enabled
  read-only sandbox whose workspace directory is the empty string, the write and edit tools
  of the host workspace are in the list that \<open>createClawdbotCodingTools\<close> returns.
\<close>

theorem readOnly_empty_workspaceDir_evaluation:
  "sandbox (readOnlyOptions []) =
     Some \<lparr>sandboxEnabled = True, sandboxWorkspaceDir = [], workspaceAccess = ''ro'',
           sandboxTools = None\<rparr> \<and>
   map name (createClawdbotCodingTools exampleCollaborators (readOnlyOptions [])) =
     [''read'', ''edit'', ''write'', ''exec'', ''process'']"
proof -
  have a: "sandbox (readOnlyOptions []) =
     Some \<lparr>sandboxEnabled = True, sandboxWorkspaceDir = [], workspaceAccess = ''ro'',
           sandboxTools = None\<rparr>"
    by (simp add: readOnlyOptions_def)
  have b: "map name (createClawdbotCodingTools exampleCollaborators (readOnlyOptions [])) =
     [''read'', ''edit'', ''write'', ''exec'', ''process'']"
    by (simp add: names_final example_policies filterToolsByPolicy_def assembledTools_def
        baseToolFor_def example_locals Let_def)
  from a b show ?thesis by (intro conjI)
qed










end
